theory Spec2Isabelle
  imports Complex_Main "HOL-Library.Word" "HOL-Library.Sublist"
begin

section \<open>Vulkan vocabulary\<close>

text \<open>
  The examples are C++ programs that drive the Vulkan API. The embedding keeps what the
  examples hand to the API: the order and the arguments of the recorded commands, the
  create-infos of the offscreen render passes, and the descriptor writes.

  A Vulkan handle is modelled by the name of the variable that holds it
  (\<open>Handle ''pipelines.glowPass''\<close>); the element \<open>i\<close> of an array of handles is
  \<open>HandleAt ''frameBuffers'' i ''''\<close>. Two handles are equal exactly when they are the
  same variable: every handle of the examples comes from its own creation call.
\<close>

datatype handle = VK_NULL_HANDLE | Handle string | HandleAt string nat string

datatype VkResult = VK_SUCCESS | VK_FAILURE int

text \<open>
  The two error classes of the specification, and the two ways the C++ itself stops:
  a failed \<open>assert\<close> and an index outside a \<open>std::vector\<close>.
\<close>

datatype error = ConfigurationError | DeviceError VkResult | AssertionFailed | OutOfRange

text \<open>
  Modelled from the spec: the macro \<open>VK_CHECK_RESULT\<close> is used by every example and is
  declared in none of the source files. Section 7 of the specification: a failure
  reported by the graphics device is a DeviceError and is fatal.
\<close>

definition VK_CHECK_RESULT :: "VkResult \<Rightarrow> (error + 'a) \<Rightarrow> error + 'a" where
  "VK_CHECK_RESULT res k = (if res = VK_SUCCESS then k else Inl (DeviceError res))"

definition and_then :: "error + 'a \<Rightarrow> ('a \<Rightarrow> error + 'b) \<Rightarrow> error + 'b" where
  "and_then r k = (case r of Inl e \<Rightarrow> Inl e | Inr x \<Rightarrow> k x)"

datatype VkFormat =
    VK_FORMAT_R8G8B8A8_UNORM
  | VK_FORMAT_D16_UNORM
  | VK_FORMAT_D16_UNORM_S8_UINT
  | VK_FORMAT_D24_UNORM_S8_UINT
  | VK_FORMAT_D32_SFLOAT
  | VK_FORMAT_D32_SFLOAT_S8_UINT

datatype VkImageLayout =
    VK_IMAGE_LAYOUT_UNDEFINED
  | VK_IMAGE_LAYOUT_GENERAL
  | VK_IMAGE_LAYOUT_COLOR_ATTACHMENT_OPTIMAL
  | VK_IMAGE_LAYOUT_DEPTH_STENCIL_ATTACHMENT_OPTIMAL
  | VK_IMAGE_LAYOUT_DEPTH_STENCIL_READ_ONLY_OPTIMAL
  | VK_IMAGE_LAYOUT_SHADER_READ_ONLY_OPTIMAL
  | VK_IMAGE_LAYOUT_TRANSFER_SRC_OPTIMAL
  | VK_IMAGE_LAYOUT_TRANSFER_DST_OPTIMAL
  | VK_IMAGE_LAYOUT_PRESENT_SRC_KHR

datatype VkAttachmentLoadOp = VK_ATTACHMENT_LOAD_OP_CLEAR | VK_ATTACHMENT_LOAD_OP_DONT_CARE

datatype VkAttachmentStoreOp = VK_ATTACHMENT_STORE_OP_STORE | VK_ATTACHMENT_STORE_OP_DONT_CARE

datatype VkPipelineStageFlagBits =
    VK_PIPELINE_STAGE_FRAGMENT_SHADER_BIT
  | VK_PIPELINE_STAGE_EARLY_FRAGMENT_TESTS_BIT
  | VK_PIPELINE_STAGE_LATE_FRAGMENT_TESTS_BIT
  | VK_PIPELINE_STAGE_COLOR_ATTACHMENT_OUTPUT_BIT
  | VK_PIPELINE_STAGE_TRANSFER_BIT

datatype VkAccessFlagBits =
    VK_ACCESS_SHADER_READ_BIT
  | VK_ACCESS_COLOR_ATTACHMENT_WRITE_BIT
  | VK_ACCESS_DEPTH_STENCIL_ATTACHMENT_WRITE_BIT
  | VK_ACCESS_TRANSFER_READ_BIT
  | VK_ACCESS_TRANSFER_WRITE_BIT
  | VK_ACCESS_MEMORY_READ_BIT

datatype subpass_index = VK_SUBPASS_EXTERNAL | Subpass nat

record VkAttachmentDescription =
  format :: VkFormat
  samples :: nat
  loadOp :: VkAttachmentLoadOp
  storeOp :: VkAttachmentStoreOp
  stencilLoadOp :: VkAttachmentLoadOp
  stencilStoreOp :: VkAttachmentStoreOp
  initialLayout :: VkImageLayout
  finalLayout :: VkImageLayout

record VkAttachmentReference =
  attachment :: nat
  layout :: VkImageLayout

record VkSubpassDescription =
  colorAttachments :: "VkAttachmentReference list"
  depthStencilAttachment :: "VkAttachmentReference option"

record VkSubpassDependency =
  srcSubpass :: subpass_index
  dstSubpass :: subpass_index
  srcStageMask :: "VkPipelineStageFlagBits set"
  dstStageMask :: "VkPipelineStageFlagBits set"
  srcAccessMask :: "VkAccessFlagBits set"
  dstAccessMask :: "VkAccessFlagBits set"
  byRegion :: bool

record VkRenderPassCreateInfo =
  attachments :: "VkAttachmentDescription list"
  subpasses :: "VkSubpassDescription list"
  dependencies :: "VkSubpassDependency list"

datatype VkDescriptorType =
    VK_DESCRIPTOR_TYPE_UNIFORM_BUFFER
  | VK_DESCRIPTOR_TYPE_COMBINED_IMAGE_SAMPLER

record VkDescriptorImageInfo =
  sampler :: handle
  imageView :: handle
  imageLayout :: VkImageLayout

datatype descriptor_info = BufferInfo handle | ImageInfo VkDescriptorImageInfo

record VkWriteDescriptorSet =
  dstSet :: handle
  descriptorType :: VkDescriptorType
  dstBinding :: nat
  pInfo :: descriptor_info

subsection \<open>Recorded commands\<close>

text \<open>
  One constructor for each \<open>vkCmd*\<close> call of the examples, with the arguments the source
  passes. Floating-point literals of the source are reals; an integer that the source
  casts to \<open>float\<close> is kept as the integer. \<open>DrawUI\<close> stands for the call of the base
  class's \<open>drawUI\<close>, whose body is not part of the source.
\<close>

datatype VkClearValue = ClearColor real real real real | ClearDepthStencil real nat

datatype VkShaderStage = VK_SHADER_STAGE_VERTEX_BIT | VK_SHADER_STAGE_FRAGMENT_BIT

record PushBlock =
  roughness :: real
  metallic :: real
  pb_r :: real
  pb_g :: real
  pb_b :: real

text \<open>
  The push-constant data of the PBR example is computed in floating point from the grid
  position \<open>(x, y)\<close>. The model keeps the operands: \<open>PushPos x y\<close> is the vector
  \<open>pos\<close>, and \<open>PushMat p x y\<close> is the block \<open>p\<close> with \<open>metallic\<close> and \<open>roughness\<close>
  replaced by the values clamped from \<open>x\<close> and \<open>y\<close>.
\<close>

datatype push_data = PushPos nat nat | PushMat PushBlock nat nat

datatype cmd =
    CmdSetViewport int int real real
  | CmdSetScissor int int int int
  | CmdSetDepthBias real real real
  | CmdBeginRenderPass handle handle int int "VkClearValue list"
  | CmdEndRenderPass
  | CmdBindDescriptorSets handle handle
  | CmdBindPipeline handle
  | CmdBindVertexBuffers nat handle
  | CmdBindIndexBuffer handle
  | CmdPushConstants handle VkShaderStage push_data
  | CmdDrawIndexed "32 word" nat nat int nat
  | CmdDraw nat nat nat nat
  | CmdPipelineBarrier handle VkImageLayout VkImageLayout
  | DrawUI

section \<open>The base class, as far as the examples use it\<close>

text \<open>
  Every example class extends \<open>VulkanExampleBase\<close>, whose source is not given. The record
  below holds the inherited members that the examples read or write. Vectors and
  matrices of the \<open>glm\<close> library are values of the type variable \<open>'g\<close>: their
  floating-point arithmetic is not interpreted. \<open>drawCmdBuffers\<close> holds, for each command
  buffer, the commands recorded into it; \<open>submitted\<close> is the list of command-buffer
  contents handed to \<open>vkQueueSubmit\<close> so far; \<open>descriptorWrites\<close> is the device's
  record of the descriptor writes it has received.
\<close>

record 'g Camera =
  updated :: bool
  matrices_perspective :: 'g
  matrices_view :: 'g
  position :: 'g

record 'g base_state =
  prepared :: bool
  paused :: bool
  width :: "32 word"
  height :: "32 word"
  defaultClearColor :: VkClearValue
  timer :: real
  zoom :: real
  rotation :: 'g
  cameraPos :: 'g
  camera :: "'g Camera"
  currentBuffer :: nat
  drawCmdBuffers :: "cmd list list"
  submitted :: "cmd list list"
  descriptorWrites :: "VkWriteDescriptorSet list"

text \<open>
  The graphics device is a collaborator: what it answers is an input of the model.
  \<open>vkResult d c\<close> is the result code the device returns for the call \<open>c\<close>.
\<close>

datatype device_call =
    vkCreateImage handle
  | vkAllocateMemory handle
  | vkBindImageMemory handle
  | vkCreateImageView handle
  | vkCreateFramebuffer handle
  | vkCreateRenderPass handle
  | vkCreateSampler handle
  | vkAllocateDescriptorSets handle
  | vkBeginCommandBuffer handle
  | vkEndCommandBuffer handle
  | vkQueueSubmit handle
  | vkAcquireNextImageKHR
  | vkQueuePresentKHR

record Device =
  vkResult :: "device_call \<Rightarrow> VkResult"
  supportedDepthFormat :: "VkFormat option"
  acquiredImage :: nat

text \<open>
  Modelled from the spec: \<open>VulkanExampleBase::prepareFrame\<close> and \<open>submitFrame\<close> are called
  by every \<open>draw\<close> and defined in none of the source files. Section 6 of the
  specification: frame presentation is "acquire target image, submit recorded commands,
  present". Acquiring sets \<open>currentBuffer\<close> to the image the device hands out.
\<close>

definition prepareFrame :: "Device \<Rightarrow> ('g, 'z) base_state_scheme
    \<Rightarrow> error + ('g, 'z) base_state_scheme" where
  "prepareFrame d s =
     VK_CHECK_RESULT (vkResult d vkAcquireNextImageKHR)
       (Inr (s\<lparr>currentBuffer := acquiredImage d\<rparr>))"

definition submitFrame :: "Device \<Rightarrow> ('g, 'z) base_state_scheme
    \<Rightarrow> error + ('g, 'z) base_state_scheme" where
  "submitFrame d s = VK_CHECK_RESULT (vkResult d vkQueuePresentKHR) (Inr s)"

text \<open>
  \<open>draw\<close> has the same body in the bloom, shadow-mapping, PBR and screenshot examples:
  it submits the command buffer of the acquired image. The commands are not recorded
  again: the contents submitted are the ones \<open>buildCommandBuffers\<close> left there.
\<close>

definition draw :: "Device \<Rightarrow> ('g, 'z) base_state_scheme
    \<Rightarrow> error + ('g, 'z) base_state_scheme" where
  "draw d s =
     and_then (prepareFrame d s) (\<lambda>s1.
       if currentBuffer s1 < length (drawCmdBuffers s1) then
         VK_CHECK_RESULT
           (vkResult d (vkQueueSubmit (HandleAt ''drawCmdBuffers'' (currentBuffer s1) [])))
           (submitFrame d
              (s1\<lparr>submitted := submitted s1 @ [drawCmdBuffers s1 ! currentBuffer s1]\<rparr>))
       else Inl OutOfRange)"

text \<open>
  The loop \<open>for (i = 0; i < drawCmdBuffers.size(); ++i)\<close> of every
  \<open>buildCommandBuffers\<close>: \<open>vkBeginCommandBuffer\<close> (which resets the buffer), the body,
  \<open>vkEndCommandBuffer\<close>. The first failing call stops the program. The body may fail
  too (an index out of range).
\<close>

definition record_buffer :: "Device \<Rightarrow> (nat \<Rightarrow> error + cmd list) \<Rightarrow> nat \<Rightarrow> error + cmd list" where
  "record_buffer d body i =
     VK_CHECK_RESULT (vkResult d (vkBeginCommandBuffer (HandleAt ''drawCmdBuffers'' i [])))
       (and_then (body i) (\<lambda>cs.
          VK_CHECK_RESULT (vkResult d (vkEndCommandBuffer (HandleAt ''drawCmdBuffers'' i [])))
            (Inr cs)))"

fun record_all :: "(nat \<Rightarrow> error + cmd list) \<Rightarrow> nat list \<Rightarrow> error + cmd list list" where
  "record_all f [] = Inr []"
| "record_all f (i # is) =
     and_then (f i) (\<lambda>c. and_then (record_all f is) (\<lambda>cs. Inr (c # cs)))"

definition record_command_buffers :: "Device \<Rightarrow> (nat \<Rightarrow> error + cmd list)
    \<Rightarrow> ('g, 'z) base_state_scheme \<Rightarrow> error + ('g, 'z) base_state_scheme" where
  "record_command_buffers d body s =
     and_then (record_all (record_buffer d body) [0..<length (drawCmdBuffers s)])
       (\<lambda>cbs. Inr (s\<lparr>drawCmdBuffers := cbs\<rparr>))"

text \<open>
  The device's side of descriptor sets: a freshly allocated set has no contents, and
  \<open>vkUpdateDescriptorSets\<close> adds the writes it is given.
\<close>

definition allocateDescriptorSet :: "handle \<Rightarrow> VkWriteDescriptorSet list \<Rightarrow> VkWriteDescriptorSet list" where
  "allocateDescriptorSet h ws = filter (\<lambda>w. dstSet w \<noteq> h) ws"

definition vkUpdateDescriptorSets :: "VkWriteDescriptorSet list \<Rightarrow> VkWriteDescriptorSet list
    \<Rightarrow> VkWriteDescriptorSet list" where
  "vkUpdateDescriptorSets new ws = ws @ new"

section \<open>Frames, passes and render targets\<close>

text \<open>
  The notions of the specification, read off a recorded command list. A pass is the
  span from \<open>vkCmdBeginRenderPass\<close> to \<open>vkCmdEndRenderPass\<close>; it writes the attachments of
  its framebuffer. A draw uses the descriptor set bound when it is issued, so a pass
  reads the images that the descriptor sets in use at its draws sample. After
  \<open>drawUI\<close> the bound set is unknown.
\<close>

record pass =
  p_renderPass :: handle
  p_framebuffer :: handle
  p_sets :: "handle list"

definition use_set :: "handle option \<Rightarrow> pass option \<Rightarrow> pass option" where
  "use_set bound cur =
     (case cur of None \<Rightarrow> None
      | Some p \<Rightarrow> (case bound of None \<Rightarrow> Some p
                   | Some d \<Rightarrow> Some (p\<lparr>p_sets := p_sets p @ [d]\<rparr>)))"

fun frame_passes :: "handle option \<Rightarrow> pass option \<Rightarrow> cmd list \<Rightarrow> pass list" where
  "frame_passes bound cur [] = []"
| "frame_passes bound cur (CmdBeginRenderPass rp fb w h cv # cs) =
     frame_passes bound (Some \<lparr>p_renderPass = rp, p_framebuffer = fb, p_sets = []\<rparr>) cs"
| "frame_passes bound None (CmdEndRenderPass # cs) = frame_passes bound None cs"
| "frame_passes bound (Some p) (CmdEndRenderPass # cs) = p # frame_passes bound None cs"
| "frame_passes bound cur (CmdBindDescriptorSets l d # cs) = frame_passes (Some d) cur cs"
| "frame_passes bound cur (CmdDrawIndexed n i f v a # cs) =
     frame_passes bound (use_set bound cur) cs"
| "frame_passes bound cur (CmdDraw n i f a # cs) = frame_passes bound (use_set bound cur) cs"
| "frame_passes bound cur (DrawUI # cs) = frame_passes None cur cs"
| "frame_passes bound cur (c # cs) = frame_passes bound cur cs"

definition passes :: "cmd list \<Rightarrow> pass list" where
  "passes cs = frame_passes None None cs"

text \<open>
  The resources of an example: its render targets (each offscreen framebuffer with the
  image views attached to it), the create-infos of its offscreen render passes, and
  the descriptor writes the device holds.
\<close>

record resources =
  res_targets :: "(handle \<times> handle list) list"
  res_renderPasses :: "(handle \<times> VkRenderPassCreateInfo) list"
  res_writes :: "VkWriteDescriptorSet list"

text \<open>A write is in effect when no later write goes to the same binding of the same set.\<close>

fun effective :: "VkWriteDescriptorSet list \<Rightarrow> VkWriteDescriptorSet list" where
  "effective [] = []"
| "effective (w # ws) =
     (if list_ex (\<lambda>w'. dstSet w' = dstSet w \<and> dstBinding w' = dstBinding w) ws
      then effective ws else w # effective ws)"

definition image_of :: "handle \<Rightarrow> VkWriteDescriptorSet \<Rightarrow> VkDescriptorImageInfo list" where
  "image_of d w =
     (case pInfo w of
        BufferInfo u \<Rightarrow> []
      | ImageInfo i \<Rightarrow>
          if dstSet w = d \<and> descriptorType w = VK_DESCRIPTOR_TYPE_COMBINED_IMAGE_SAMPLER
          then [i] else [])"

definition sampled_images :: "VkWriteDescriptorSet list \<Rightarrow> handle \<Rightarrow> VkDescriptorImageInfo list" where
  "sampled_images ws d = concat (map (image_of d) (effective ws))"

definition render_target_views :: "resources \<Rightarrow> handle list" where
  "render_target_views R = concat (map snd (res_targets R))"

definition views_of :: "resources \<Rightarrow> handle \<Rightarrow> handle list" where
  "views_of R fb = concat (map snd (filter (\<lambda>t. fst t = fb) (res_targets R)))"

definition pass_writes :: "resources \<Rightarrow> pass \<Rightarrow> handle list" where
  "pass_writes R p = views_of R (p_framebuffer p)"

definition pass_reads :: "resources \<Rightarrow> pass \<Rightarrow> handle list" where
  "pass_reads R p =
     filter (\<lambda>v. v \<in> set (render_target_views R))
       (map imageView (concat (map (sampled_images (res_writes R)) (p_sets p))))"

text \<open>
  Topological validity, as the specification words it: every render target a pass reads
  is written by a strictly earlier pass of the frame, and not by the pass itself.
\<close>

definition topologically_valid :: "resources \<Rightarrow> pass list \<Rightarrow> bool" where
  "topologically_valid R ps =
     (\<forall>j < length ps. \<forall>v \<in> set (pass_reads R (ps ! j)).
        (\<exists>k < j. v \<in> set (pass_writes R (ps ! k))) \<and> v \<notin> set (pass_writes R (ps ! j)))"

text \<open>The same check as a left-to-right scan with the set of targets written so far.\<close>

fun valid_from :: "resources \<Rightarrow> handle list \<Rightarrow> pass list \<Rightarrow> bool" where
  "valid_from R W [] = True"
| "valid_from R W (p # ps) =
     ((\<forall>v \<in> set (pass_reads R p). v \<in> set W \<and> v \<notin> set (pass_writes R p))
      \<and> valid_from R (W @ pass_writes R p) ps)"

text \<open>
  Exclusive writers. \<open>writers R ps v\<close> are the passes of the frame that write the render
  target \<open>v\<close>. In \<open>reads_follow_writes\<close> every pass that reads a render target comes
  after a pass that writes it. \<open>exclusively_written\<close> is the property in the words of the
  specification: each render target is written by exactly one pass of the frame, and
  its reads are later. \<open>written_at_most_once\<close> allows a frame that leaves a render target
  alone.
\<close>

definition writers :: "resources \<Rightarrow> pass list \<Rightarrow> handle \<Rightarrow> pass list" where
  "writers R ps v = filter (\<lambda>p. v \<in> set (pass_writes R p)) ps"

definition reads_follow_writes :: "resources \<Rightarrow> pass list \<Rightarrow> bool" where
  "reads_follow_writes R ps =
     (\<forall>v \<in> set (render_target_views R).
        \<forall>j < length ps. v \<in> set (pass_reads R (ps ! j)) \<longrightarrow>
           (\<exists>k < j. v \<in> set (pass_writes R (ps ! k))))"

definition exclusively_written :: "resources \<Rightarrow> pass list \<Rightarrow> bool" where
  "exclusively_written R ps =
     ((\<forall>v \<in> set (render_target_views R). length (writers R ps v) = 1)
      \<and> reads_follow_writes R ps)"

definition written_at_most_once :: "resources \<Rightarrow> pass list \<Rightarrow> bool" where
  "written_at_most_once R ps =
     ((\<forall>v \<in> set (render_target_views R). length (writers R ps v) \<le> 1)
      \<and> reads_follow_writes R ps)"

definition untouched :: "resources \<Rightarrow> pass list \<Rightarrow> bool" where
  "untouched R ps =
     list_all (\<lambda>p. pass_writes R p = [] \<and> pass_reads R p = []) ps"

subsection \<open>Synchronisation by render passes\<close>

text \<open>
  When a render pass instance ends, attachment \<open>a\<close> is left in its \<open>finalLayout\<close>. Its
  contents are available to the fragment shaders of later commands when the attachment
  is stored and the render pass has a dependency from its last subpass to
  \<open>VK_SUBPASS_EXTERNAL\<close> that covers the attachment writes on the source side and shader
  reads in the fragment stage on the destination side.
\<close>

definition is_color_attachment :: "VkRenderPassCreateInfo \<Rightarrow> nat \<Rightarrow> bool" where
  "is_color_attachment info a =
     list_ex (\<lambda>sp. list_ex (\<lambda>ref. attachment ref = a) (colorAttachments sp)) (subpasses info)"

definition covers_writes :: "VkRenderPassCreateInfo \<Rightarrow> nat \<Rightarrow> VkSubpassDependency \<Rightarrow> bool" where
  "covers_writes info a dep =
     (if is_color_attachment info a
      then VK_PIPELINE_STAGE_COLOR_ATTACHMENT_OUTPUT_BIT \<in> srcStageMask dep
           \<and> VK_ACCESS_COLOR_ATTACHMENT_WRITE_BIT \<in> srcAccessMask dep
      else VK_PIPELINE_STAGE_LATE_FRAGMENT_TESTS_BIT \<in> srcStageMask dep
           \<and> VK_ACCESS_DEPTH_STENCIL_ATTACHMENT_WRITE_BIT \<in> srcAccessMask dep)"

definition external_read_dependency :: "VkRenderPassCreateInfo \<Rightarrow> nat \<Rightarrow> VkSubpassDependency \<Rightarrow> bool" where
  "external_read_dependency info a dep =
     (srcSubpass dep = Subpass (length (subpasses info) - 1)
      \<and> dstSubpass dep = VK_SUBPASS_EXTERNAL
      \<and> covers_writes info a dep
      \<and> VK_PIPELINE_STAGE_FRAGMENT_SHADER_BIT \<in> dstStageMask dep
      \<and> VK_ACCESS_SHADER_READ_BIT \<in> dstAccessMask dep)"

definition made_readable :: "VkRenderPassCreateInfo \<Rightarrow> nat \<Rightarrow> VkImageLayout option" where
  "made_readable info a =
     (if a < length (attachments info)
         \<and> storeOp (attachments info ! a) = VK_ATTACHMENT_STORE_OP_STORE
         \<and> list_ex (external_read_dependency info a) (dependencies info)
      then Some (finalLayout (attachments info ! a)) else None)"

definition readable_after :: "resources \<Rightarrow> handle \<Rightarrow> handle \<Rightarrow> (handle \<times> VkImageLayout) list" where
  "readable_after R rp fb =
     (case map_of (res_renderPasses R) rp of
        None \<Rightarrow> []
      | Some info \<Rightarrow>
          concat (map (\<lambda>(a, v). case made_readable info a of None \<Rightarrow> [] | Some l \<Rightarrow> [(v, l)])
                    (enumerate 0 (views_of R fb))))"

definition draw_ok :: "resources \<Rightarrow> (handle \<times> VkImageLayout) list \<Rightarrow> handle option \<Rightarrow> bool" where
  "draw_ok R L bound =
     (case bound of None \<Rightarrow> True
      | Some d \<Rightarrow>
          list_all (\<lambda>i. imageView i \<in> set (render_target_views R)
                         \<longrightarrow> (imageView i, imageLayout i) \<in> set L)
            (sampled_images (res_writes R) d))"

text \<open>
  The scan keeps the list \<open>L\<close> of render-target views that are readable, each with the
  layout it is in. Beginning a pass on a framebuffer takes its views out of \<open>L\<close>;
  ending the pass puts back those the render pass makes readable. Every draw must find
  each render target it samples in \<open>L\<close>, in the layout its descriptor declares.
\<close>

fun sync_scan :: "resources \<Rightarrow> (handle \<times> VkImageLayout) list \<Rightarrow> handle option
    \<Rightarrow> (handle \<times> handle) option \<Rightarrow> cmd list \<Rightarrow> bool" where
  "sync_scan R L bound cur [] = True"
| "sync_scan R L bound cur (CmdBeginRenderPass rp fb w h cv # cs) =
     sync_scan R (filter (\<lambda>e. fst e \<notin> set (views_of R fb)) L) bound (Some (rp, fb)) cs"
| "sync_scan R L bound None (CmdEndRenderPass # cs) = sync_scan R L bound None cs"
| "sync_scan R L bound (Some (rp, fb)) (CmdEndRenderPass # cs) =
     sync_scan R (readable_after R rp fb @ L) bound None cs"
| "sync_scan R L bound cur (CmdBindDescriptorSets l d # cs) = sync_scan R L (Some d) cur cs"
| "sync_scan R L bound cur (CmdDrawIndexed n i f v a # cs) =
     (draw_ok R L bound \<and> sync_scan R L bound cur cs)"
| "sync_scan R L bound cur (CmdDraw n i f a # cs) =
     (draw_ok R L bound \<and> sync_scan R L bound cur cs)"
| "sync_scan R L bound cur (DrawUI # cs) = sync_scan R L None cur cs"
| "sync_scan R L bound cur (c # cs) = sync_scan R L bound cur cs"

fun is_explicit_barrier :: "cmd \<Rightarrow> bool" where
  "is_explicit_barrier (CmdPipelineBarrier img old new) = True"
| "is_explicit_barrier c = False"

definition synchronized_by_render_passes :: "resources \<Rightarrow> cmd list \<Rightarrow> bool" where
  "synchronized_by_render_passes R cs =
     (sync_scan R [] None None cs \<and> \<not> list_ex is_explicit_barrier cs)"

subsection \<open>The order of the draws\<close>

text \<open>
  A draw is identified by the framebuffer of the pass it is in and the descriptor set
  it uses. \<open>draw_steps\<close> lists the draws of a command list in recorded order.
\<close>

fun draw_steps :: "handle option \<Rightarrow> handle option \<Rightarrow> cmd list \<Rightarrow> (handle \<times> handle) list" where
  "draw_steps bound cur [] = []"
| "draw_steps bound cur (CmdBeginRenderPass rp fb w h cv # cs) = draw_steps bound (Some fb) cs"
| "draw_steps bound cur (CmdEndRenderPass # cs) = draw_steps bound None cs"
| "draw_steps bound cur (CmdBindDescriptorSets l d # cs) = draw_steps (Some d) cur cs"
| "draw_steps (Some d) (Some fb) (CmdDrawIndexed n i f v a # cs) =
     (fb, d) # draw_steps (Some d) (Some fb) cs"
| "draw_steps (Some d) (Some fb) (CmdDraw n i f a # cs) =
     (fb, d) # draw_steps (Some d) (Some fb) cs"
| "draw_steps bound cur (DrawUI # cs) = draw_steps None cur cs"
| "draw_steps bound cur (c # cs) = draw_steps bound cur cs"

section \<open>The bloom example\<close>

text \<open>
  The class \<open>VulkanExample\<close> of the bloom example (the second document of
  \<open>base/vkx/compute.hpp\<close>). A uniform block computed with \<open>glm\<close> is a value of type
  \<open>'g\<close>, given by a function of exactly the variables the source reads to compute it;
  these functions are the parameter \<open>G\<close> of the update functions.
\<close>

record Model =
  indexCount :: "32 word"

datatype VkImageUsageFlagBits =
    VK_IMAGE_USAGE_COLOR_ATTACHMENT_BIT
  | VK_IMAGE_USAGE_DEPTH_STENCIL_ATTACHMENT_BIT
  | VK_IMAGE_USAGE_SAMPLED_BIT

record FrameBufferAttachment =
  image :: handle
  mem :: handle
  view :: handle
  image_format :: VkFormat
  image_usage :: "VkImageUsageFlagBits set"

record FrameBuffer =
  framebuffer :: handle
  color :: FrameBufferAttachment
  depth :: FrameBufferAttachment
  descriptor :: VkDescriptorImageInfo
  fb_renderPass :: handle
  fb_attachments :: "handle list"

record bloom_OffscreenPass =
  bo_width :: "32 word"
  bo_height :: "32 word"
  bo_renderPass :: handle
  bo_renderPassInfo :: VkRenderPassCreateInfo
  bo_sampler :: handle
  bo_framebuffers0 :: FrameBuffer
  bo_framebuffers1 :: FrameBuffer

record UBOBlurParams =
  blurScale :: real
  blurStrength :: real

record 'g bloom_state = "'g base_state" +
  bloom :: bool
  models_ufo :: Model
  models_ufoGlow :: Model
  models_skyBox :: Model
  cubemap_imageLayout :: VkImageLayout
  ubos_scene :: 'g
  ubos_skyBox :: 'g
  ubos_blurParams :: UBOBlurParams
  mapped_scene :: 'g
  mapped_skyBox :: 'g
  mapped_blurParams :: UBOBlurParams
  bloom_offscreenPass :: bloom_OffscreenPass

record 'g bloom_glm =
  glm_scene :: "'g Camera \<Rightarrow> real \<Rightarrow> 'g \<Rightarrow> 'g"
  glm_skyBox :: "32 word \<Rightarrow> 32 word \<Rightarrow> 'g Camera \<Rightarrow> 'g"

definition FB_DIM :: "32 word" where
  "FB_DIM = 256"

definition FB_COLOR_FORMAT :: VkFormat where
  "FB_COLOR_FORMAT = VK_FORMAT_R8G8B8A8_UNORM"

subsection \<open>prepareOffscreenFramebuffer and prepareOffscreen\<close>

text \<open>
  \<open>k\<close> says which element of \<open>offscreenPass.framebuffers\<close> the pointer \<open>frameBuf\<close> is.
  \<open>fb_renderPass\<close> and \<open>fb_attachments\<close> are the render pass and the attachment views
  of \<open>fbufCreateInfo\<close>.
\<close>

definition bloom_prepareOffscreenFramebuffer :: "Device \<Rightarrow> bloom_OffscreenPass \<Rightarrow> nat
    \<Rightarrow> VkFormat \<Rightarrow> VkFormat \<Rightarrow> error + FrameBuffer" where
  "bloom_prepareOffscreenFramebuffer d op k colorFormat depthFormat =
     (let h = HandleAt ''offscreenPass.framebuffers'' k in
      VK_CHECK_RESULT (vkResult d (vkCreateImage (h ''color.image'')))
     (VK_CHECK_RESULT (vkResult d (vkAllocateMemory (h ''color.mem'')))
     (VK_CHECK_RESULT (vkResult d (vkBindImageMemory (h ''color.image'')))
     (VK_CHECK_RESULT (vkResult d (vkCreateImageView (h ''color.view'')))
     (VK_CHECK_RESULT (vkResult d (vkCreateImage (h ''depth.image'')))
     (VK_CHECK_RESULT (vkResult d (vkAllocateMemory (h ''depth.mem'')))
     (VK_CHECK_RESULT (vkResult d (vkBindImageMemory (h ''depth.image'')))
     (VK_CHECK_RESULT (vkResult d (vkCreateImageView (h ''depth.view'')))
     (VK_CHECK_RESULT (vkResult d (vkCreateFramebuffer (h ''framebuffer'')))
       (Inr \<lparr>framebuffer = h ''framebuffer'',
             color = \<lparr>image = h ''color.image'', mem = h ''color.mem'',
                      view = h ''color.view'', image_format = colorFormat,
                      image_usage = {VK_IMAGE_USAGE_COLOR_ATTACHMENT_BIT,
                                     VK_IMAGE_USAGE_SAMPLED_BIT}\<rparr>,
             depth = \<lparr>image = h ''depth.image'', mem = h ''depth.mem'',
                      view = h ''depth.view'', image_format = depthFormat,
                      image_usage = {VK_IMAGE_USAGE_DEPTH_STENCIL_ATTACHMENT_BIT}\<rparr>,
             descriptor = \<lparr>sampler = bo_sampler op, imageView = h ''color.view'',
                           imageLayout = VK_IMAGE_LAYOUT_SHADER_READ_ONLY_OPTIMAL\<rparr>,
             fb_renderPass = bo_renderPass op,
             fb_attachments = [h ''color.view'', h ''depth.view'']\<rparr>))))))))))"

definition bloom_renderPassInfo :: "VkFormat \<Rightarrow> VkRenderPassCreateInfo" where
  "bloom_renderPassInfo fbDepthFormat =
     \<lparr>attachments =
        [\<lparr>format = FB_COLOR_FORMAT, samples = 1,
          loadOp = VK_ATTACHMENT_LOAD_OP_CLEAR, storeOp = VK_ATTACHMENT_STORE_OP_STORE,
          stencilLoadOp = VK_ATTACHMENT_LOAD_OP_DONT_CARE,
          stencilStoreOp = VK_ATTACHMENT_STORE_OP_DONT_CARE,
          initialLayout = VK_IMAGE_LAYOUT_UNDEFINED,
          finalLayout = VK_IMAGE_LAYOUT_SHADER_READ_ONLY_OPTIMAL\<rparr>,
         \<lparr>format = fbDepthFormat, samples = 1,
          loadOp = VK_ATTACHMENT_LOAD_OP_CLEAR, storeOp = VK_ATTACHMENT_STORE_OP_DONT_CARE,
          stencilLoadOp = VK_ATTACHMENT_LOAD_OP_DONT_CARE,
          stencilStoreOp = VK_ATTACHMENT_STORE_OP_DONT_CARE,
          initialLayout = VK_IMAGE_LAYOUT_UNDEFINED,
          finalLayout = VK_IMAGE_LAYOUT_DEPTH_STENCIL_ATTACHMENT_OPTIMAL\<rparr>],
      subpasses =
        [\<lparr>colorAttachments =
            [\<lparr>attachment = 0, layout = VK_IMAGE_LAYOUT_COLOR_ATTACHMENT_OPTIMAL\<rparr>],
          depthStencilAttachment =
            Some \<lparr>attachment = 1, layout = VK_IMAGE_LAYOUT_DEPTH_STENCIL_ATTACHMENT_OPTIMAL\<rparr>\<rparr>],
      dependencies =
        [\<lparr>srcSubpass = VK_SUBPASS_EXTERNAL, dstSubpass = Subpass 0,
          srcStageMask = {VK_PIPELINE_STAGE_FRAGMENT_SHADER_BIT},
          dstStageMask = {VK_PIPELINE_STAGE_COLOR_ATTACHMENT_OUTPUT_BIT},
          srcAccessMask = {VK_ACCESS_SHADER_READ_BIT},
          dstAccessMask = {VK_ACCESS_COLOR_ATTACHMENT_WRITE_BIT},
          byRegion = True\<rparr>,
         \<lparr>srcSubpass = Subpass 0, dstSubpass = VK_SUBPASS_EXTERNAL,
          srcStageMask = {VK_PIPELINE_STAGE_COLOR_ATTACHMENT_OUTPUT_BIT},
          dstStageMask = {VK_PIPELINE_STAGE_FRAGMENT_SHADER_BIT},
          srcAccessMask = {VK_ACCESS_COLOR_ATTACHMENT_WRITE_BIT},
          dstAccessMask = {VK_ACCESS_SHADER_READ_BIT},
          byRegion = True\<rparr>]\<rparr>"

definition bloom_prepareOffscreen :: "Device \<Rightarrow> 'g bloom_state \<Rightarrow> error + 'g bloom_state" where
  "bloom_prepareOffscreen d s =
     (case supportedDepthFormat d of
        None \<Rightarrow> Inl AssertionFailed
      | Some fbDepthFormat \<Rightarrow>
          VK_CHECK_RESULT (vkResult d (vkCreateRenderPass (Handle ''offscreenPass.renderPass'')))
         (VK_CHECK_RESULT (vkResult d (vkCreateSampler (Handle ''offscreenPass.sampler'')))
           (let op = (bloom_offscreenPass s)
                  \<lparr>bo_width := FB_DIM, bo_height := FB_DIM,
                   bo_renderPass := Handle ''offscreenPass.renderPass'',
                   bo_renderPassInfo := bloom_renderPassInfo fbDepthFormat,
                   bo_sampler := Handle ''offscreenPass.sampler''\<rparr> in
            and_then (bloom_prepareOffscreenFramebuffer d op 0 FB_COLOR_FORMAT fbDepthFormat)
              (\<lambda>f0. and_then
                 (bloom_prepareOffscreenFramebuffer d op 1 FB_COLOR_FORMAT fbDepthFormat)
                 (\<lambda>f1. Inr (s\<lparr>bloom_offscreenPass :=
                                  op\<lparr>bo_framebuffers0 := f0, bo_framebuffers1 := f1\<rparr>\<rparr>))))))"

subsection \<open>setupDescriptorSet\<close>

definition bloom_writes_blurVert :: "bloom_OffscreenPass \<Rightarrow> VkWriteDescriptorSet list" where
  "bloom_writes_blurVert op =
     [\<lparr>dstSet = Handle ''descriptorSets.blurVert'',
       descriptorType = VK_DESCRIPTOR_TYPE_UNIFORM_BUFFER, dstBinding = 0,
       pInfo = BufferInfo (Handle ''uniformBuffers.blurParams'')\<rparr>,
      \<lparr>dstSet = Handle ''descriptorSets.blurVert'',
       descriptorType = VK_DESCRIPTOR_TYPE_COMBINED_IMAGE_SAMPLER, dstBinding = 1,
       pInfo = ImageInfo (descriptor (bo_framebuffers0 op))\<rparr>]"

definition bloom_writes_blurHorz :: "bloom_OffscreenPass \<Rightarrow> VkWriteDescriptorSet list" where
  "bloom_writes_blurHorz op =
     [\<lparr>dstSet = Handle ''descriptorSets.blurHorz'',
       descriptorType = VK_DESCRIPTOR_TYPE_UNIFORM_BUFFER, dstBinding = 0,
       pInfo = BufferInfo (Handle ''uniformBuffers.blurParams'')\<rparr>,
      \<lparr>dstSet = Handle ''descriptorSets.blurHorz'',
       descriptorType = VK_DESCRIPTOR_TYPE_COMBINED_IMAGE_SAMPLER, dstBinding = 1,
       pInfo = ImageInfo (descriptor (bo_framebuffers1 op))\<rparr>]"

definition bloom_writes_scene :: "VkWriteDescriptorSet list" where
  "bloom_writes_scene =
     [\<lparr>dstSet = Handle ''descriptorSets.scene'',
       descriptorType = VK_DESCRIPTOR_TYPE_UNIFORM_BUFFER, dstBinding = 0,
       pInfo = BufferInfo (Handle ''uniformBuffers.scene'')\<rparr>]"

definition bloom_writes_skyBox :: "VkImageLayout \<Rightarrow> VkWriteDescriptorSet list" where
  "bloom_writes_skyBox cubemapLayout =
     [\<lparr>dstSet = Handle ''descriptorSets.skyBox'',
       descriptorType = VK_DESCRIPTOR_TYPE_UNIFORM_BUFFER, dstBinding = 0,
       pInfo = BufferInfo (Handle ''uniformBuffers.skyBox'')\<rparr>,
      \<lparr>dstSet = Handle ''descriptorSets.skyBox'',
       descriptorType = VK_DESCRIPTOR_TYPE_COMBINED_IMAGE_SAMPLER, dstBinding = 1,
       pInfo = ImageInfo \<lparr>sampler = Handle ''textures.cubemap.sampler'',
                          imageView = Handle ''textures.cubemap.view'',
                          imageLayout = cubemapLayout\<rparr>\<rparr>]"

text \<open>
  Four allocations, each followed by the writes of the set. No step looks at the
  recorded command buffers or at the \<open>bloom\<close> flag; the only failures are the device's.
\<close>

definition bloom_setupDescriptorSet :: "Device \<Rightarrow> 'g bloom_state \<Rightarrow> error + 'g bloom_state" where
  "bloom_setupDescriptorSet d s =
     (let op = bloom_offscreenPass s; w0 = descriptorWrites s in
      VK_CHECK_RESULT (vkResult d (vkAllocateDescriptorSets (Handle ''descriptorSets.blurVert'')))
        (let w1 = vkUpdateDescriptorSets (bloom_writes_blurVert op)
                    (allocateDescriptorSet (Handle ''descriptorSets.blurVert'') w0) in
      VK_CHECK_RESULT (vkResult d (vkAllocateDescriptorSets (Handle ''descriptorSets.blurHorz'')))
        (let w2 = vkUpdateDescriptorSets (bloom_writes_blurHorz op)
                    (allocateDescriptorSet (Handle ''descriptorSets.blurHorz'') w1) in
      VK_CHECK_RESULT (vkResult d (vkAllocateDescriptorSets (Handle ''descriptorSets.scene'')))
        (let w3 = vkUpdateDescriptorSets bloom_writes_scene
                    (allocateDescriptorSet (Handle ''descriptorSets.scene'') w2) in
      VK_CHECK_RESULT (vkResult d (vkAllocateDescriptorSets (Handle ''descriptorSets.skyBox'')))
        (let w4 = vkUpdateDescriptorSets (bloom_writes_skyBox (cubemap_imageLayout s))
                    (allocateDescriptorSet (Handle ''descriptorSets.skyBox'') w3) in
         Inr (s\<lparr>descriptorWrites := w4\<rparr>))))))"

subsection \<open>buildCommandBuffers\<close>

text \<open>
  The commands recorded into command buffer \<open>i\<close>, in the order of the source: the two
  offscreen passes under \<open>if (bloom)\<close>, then the scene pass, whose blur draw is again
  under \<open>if (bloom)\<close>.
\<close>

definition bloom_offscreen_commands :: "'g bloom_state \<Rightarrow> cmd list" where
  "bloom_offscreen_commands s =
     (let op = bloom_offscreenPass s;
          clearValues = [ClearColor 0 0 0 1, ClearDepthStencil 1 0] in
      [CmdSetViewport (sint (bo_width op)) (sint (bo_height op)) 0 1,
       CmdSetScissor (sint (bo_width op)) (sint (bo_height op)) 0 0,
       CmdBeginRenderPass (bo_renderPass op) (framebuffer (bo_framebuffers0 op))
         (uint (bo_width op)) (uint (bo_height op)) clearValues,
       CmdBindDescriptorSets (Handle ''pipelineLayouts.scene'') (Handle ''descriptorSets.scene''),
       CmdBindPipeline (Handle ''pipelines.glowPass''),
       CmdBindVertexBuffers 0 (Handle ''models.ufoGlow.vertices.buffer''),
       CmdBindIndexBuffer (Handle ''models.ufoGlow.indices.buffer''),
       CmdDrawIndexed (indexCount (models_ufoGlow s)) 1 0 0 0,
       CmdEndRenderPass,
       CmdBeginRenderPass (bo_renderPass op) (framebuffer (bo_framebuffers1 op))
         (uint (bo_width op)) (uint (bo_height op)) clearValues,
       CmdBindDescriptorSets (Handle ''pipelineLayouts.blur'') (Handle ''descriptorSets.blurVert''),
       CmdBindPipeline (Handle ''pipelines.blurVert''),
       CmdDraw 3 1 0 0,
       CmdEndRenderPass])"

definition bloom_scene_commands :: "'g bloom_state \<Rightarrow> nat \<Rightarrow> cmd list" where
  "bloom_scene_commands s i =
     [CmdBeginRenderPass (Handle ''renderPass'') (HandleAt ''frameBuffers'' i [])
        (uint (width s)) (uint (height s)) [defaultClearColor s, ClearDepthStencil 1 0],
      CmdSetViewport (uint (width s)) (uint (height s)) 0 1,
      CmdSetScissor (uint (width s)) (uint (height s)) 0 0,
      CmdBindDescriptorSets (Handle ''pipelineLayouts.scene'') (Handle ''descriptorSets.skyBox''),
      CmdBindPipeline (Handle ''pipelines.skyBox''),
      CmdBindVertexBuffers 0 (Handle ''models.skyBox.vertices.buffer''),
      CmdBindIndexBuffer (Handle ''models.skyBox.indices.buffer''),
      CmdDrawIndexed (indexCount (models_skyBox s)) 1 0 0 0,
      CmdBindDescriptorSets (Handle ''pipelineLayouts.scene'') (Handle ''descriptorSets.scene''),
      CmdBindPipeline (Handle ''pipelines.phongPass''),
      CmdBindVertexBuffers 0 (Handle ''models.ufo.vertices.buffer''),
      CmdBindIndexBuffer (Handle ''models.ufo.indices.buffer''),
      CmdDrawIndexed (indexCount (models_ufo s)) 1 0 0 0]"

definition bloom_blurHorz_commands :: "cmd list" where
  "bloom_blurHorz_commands =
     [CmdBindDescriptorSets (Handle ''pipelineLayouts.blur'') (Handle ''descriptorSets.blurHorz''),
      CmdBindPipeline (Handle ''pipelines.blurHorz''),
      CmdDraw 3 1 0 0]"

definition bloom_commands :: "'g bloom_state \<Rightarrow> nat \<Rightarrow> cmd list" where
  "bloom_commands s i =
     (if bloom s then bloom_offscreen_commands s else [])
     @ bloom_scene_commands s i
     @ (if bloom s then bloom_blurHorz_commands else [])
     @ [DrawUI, CmdEndRenderPass]"

definition bloom_buildCommandBuffers :: "Device \<Rightarrow> 'g bloom_state \<Rightarrow> error + 'g bloom_state" where
  "bloom_buildCommandBuffers d s =
     record_command_buffers d (\<lambda>i. Inr (bloom_commands s i)) s"

subsection \<open>Uniform buffers, render and the overlay\<close>

definition bloom_updateUniformBuffersScene :: "'g bloom_glm \<Rightarrow> 'g bloom_state \<Rightarrow> 'g bloom_state" where
  "bloom_updateUniformBuffersScene G s =
     (let scene = glm_scene G (camera s) (timer s) (cameraPos s);
          sky = glm_skyBox G (width s) (height s) (camera s) in
      s\<lparr>ubos_scene := scene, mapped_scene := scene,
        ubos_skyBox := sky, mapped_skyBox := sky\<rparr>)"

definition bloom_updateUniformBuffersBlur :: "'g bloom_state \<Rightarrow> 'g bloom_state" where
  "bloom_updateUniformBuffersBlur s = s\<lparr>mapped_blurParams := ubos_blurParams s\<rparr>"

definition bloom_render :: "Device \<Rightarrow> 'g bloom_glm \<Rightarrow> 'g bloom_state \<Rightarrow> error + 'g bloom_state" where
  "bloom_render d G s =
     (if \<not> prepared s then Inr s
      else and_then (draw d s) (\<lambda>s1.
             if \<not> paused s1 \<or> updated (camera s1)
             then Inr (bloom_updateUniformBuffersScene G s1) else Inr s1))"

text \<open>
  What the overlay reports for one frame. \<open>checkBox\<close> and \<open>inputFloat\<close> return true
  when the user changed the value, and have then stored the new value through the
  pointer they were given: \<open>Some v\<close> is a change to \<open>v\<close>.
\<close>

record bloom_overlay =
  bov_header :: bool
  bov_Bloom :: "bool option"
  bov_Scale :: "real option"

definition bloom_OnUpdateUIOverlay :: "Device \<Rightarrow> bloom_overlay \<Rightarrow> 'g bloom_state
    \<Rightarrow> error + 'g bloom_state" where
  "bloom_OnUpdateUIOverlay d ov s =
     (if bov_header ov then
        and_then
          (case bov_Bloom ov of
             None \<Rightarrow> Inr s
           | Some v \<Rightarrow> bloom_buildCommandBuffers d (s\<lparr>bloom := v\<rparr>))
          (\<lambda>s1. case bov_Scale ov of
                   None \<Rightarrow> Inr s1
                 | Some x \<Rightarrow>
                     Inr (bloom_updateUniformBuffersBlur
                            (s1\<lparr>ubos_blurParams := (ubos_blurParams s1)\<lparr>blurScale := x\<rparr>\<rparr>)))
      else Inr s)"

subsection \<open>The resources of the bloom example\<close>

definition bloom_resources :: "'g bloom_state \<Rightarrow> resources" where
  "bloom_resources s =
     (let op = bloom_offscreenPass s in
      \<lparr>res_targets =
         [(framebuffer (bo_framebuffers0 op), fb_attachments (bo_framebuffers0 op)),
          (framebuffer (bo_framebuffers1 op), fb_attachments (bo_framebuffers1 op))],
       res_renderPasses = [(bo_renderPass op, bo_renderPassInfo op)],
       res_writes = descriptorWrites s\<rparr>)"

text \<open>
  The state of the offscreen resources once \<open>prepareOffscreen\<close> and \<open>setupDescriptorSet\<close>
  have run: the offscreen pass is the one \<open>prepareOffscreen\<close> stores for the depth
  format \<open>fmt\<close>, and the four descriptor sets sample what \<open>setupDescriptorSet\<close> wrote.
\<close>

definition bloom_offscreenPass_of :: "VkFormat \<Rightarrow> bloom_OffscreenPass" where
  "bloom_offscreenPass_of fmt =
     (let h = HandleAt ''offscreenPass.framebuffers'';
          fb = (\<lambda>k. \<lparr>framebuffer = h k ''framebuffer'',
             color = \<lparr>image = h k ''color.image'', mem = h k ''color.mem'',
                      view = h k ''color.view'', image_format = FB_COLOR_FORMAT,
                      image_usage = {VK_IMAGE_USAGE_COLOR_ATTACHMENT_BIT,
                                     VK_IMAGE_USAGE_SAMPLED_BIT}\<rparr>,
             depth = \<lparr>image = h k ''depth.image'', mem = h k ''depth.mem'',
                      view = h k ''depth.view'', image_format = fmt,
                      image_usage = {VK_IMAGE_USAGE_DEPTH_STENCIL_ATTACHMENT_BIT}\<rparr>,
             descriptor = \<lparr>sampler = Handle ''offscreenPass.sampler'',
                           imageView = h k ''color.view'',
                           imageLayout = VK_IMAGE_LAYOUT_SHADER_READ_ONLY_OPTIMAL\<rparr>,
             fb_renderPass = Handle ''offscreenPass.renderPass'',
             fb_attachments = [h k ''color.view'', h k ''depth.view'']\<rparr>) in
      \<lparr>bo_width = FB_DIM, bo_height = FB_DIM,
       bo_renderPass = Handle ''offscreenPass.renderPass'',
       bo_renderPassInfo = bloom_renderPassInfo fmt,
       bo_sampler = Handle ''offscreenPass.sampler'',
       bo_framebuffers0 = fb 0, bo_framebuffers1 = fb 1\<rparr>)"

definition bloom_ready :: "VkFormat \<Rightarrow> 'g bloom_state \<Rightarrow> bool" where
  "bloom_ready fmt s =
     (bloom_offscreenPass s = bloom_offscreenPass_of fmt
      \<and> sampled_images (descriptorWrites s) (Handle ''descriptorSets.blurVert'')
          = [descriptor (bo_framebuffers0 (bloom_offscreenPass s))]
      \<and> sampled_images (descriptorWrites s) (Handle ''descriptorSets.blurHorz'')
          = [descriptor (bo_framebuffers1 (bloom_offscreenPass s))]
      \<and> sampled_images (descriptorWrites s) (Handle ''descriptorSets.scene'') = []
      \<and> sampled_images (descriptorWrites s) (Handle ''descriptorSets.skyBox'')
          = [\<lparr>sampler = Handle ''textures.cubemap.sampler'',
              imageView = Handle ''textures.cubemap.view'',
              imageLayout = cubemap_imageLayout s\<rparr>])"

section \<open>The shadow-mapping example\<close>

text \<open>
  The class \<open>VulkanExample\<close> of the projected shadow-mapping example (the second unnamed
  source file). \<open>sceneIndex\<close> is an \<open>int32_t\<close>; \<open>scenes[sceneIndex]\<close> outside the vector
  is the error \<open>OutOfRange\<close>.
\<close>

record shadow_OffscreenPass =
  so_width :: "32 word"
  so_height :: "32 word"
  so_frameBuffer :: handle
  so_attachments :: "handle list"
  so_depth :: FrameBufferAttachment
  so_renderPass :: handle
  so_renderPassInfo :: VkRenderPassCreateInfo
  so_depthSampler :: handle

record 'g shadow_state = "'g base_state" +
  displayShadowMap :: bool
  filterPCF :: bool
  zNear :: real
  zFar :: real
  depthBiasConstant :: real
  depthBiasSlope :: real
  lightPos :: 'g
  lightFOV :: real
  models_quad :: Model
  scenes :: "Model list"
  sceneIndex :: "32 word"
  uboVSquad :: 'g
  uboVSscene :: 'g
  uboOffscreenVS :: 'g
  shadow_mapped_debug :: 'g
  shadow_mapped_offscreen :: 'g
  shadow_mapped_scene :: 'g
  shadow_offscreenPass :: shadow_OffscreenPass

record 'g shadow_glm =
  glm_lightPos :: "real \<Rightarrow> 'g"
  glm_depthMVP :: "real \<Rightarrow> real \<Rightarrow> real \<Rightarrow> 'g \<Rightarrow> 'g"
  glm_quad :: "32 word \<Rightarrow> 32 word \<Rightarrow> 'g"
  glm_sceneUBO :: "32 word \<Rightarrow> 32 word \<Rightarrow> real \<Rightarrow> real \<Rightarrow> real \<Rightarrow> 'g \<Rightarrow> 'g \<Rightarrow> 'g \<Rightarrow> 'g"

definition DEPTH_FORMAT :: VkFormat where
  "DEPTH_FORMAT = VK_FORMAT_D16_UNORM"

definition SHADOWMAP_DIM :: "32 word" where
  "SHADOWMAP_DIM = 2048"

subsection \<open>prepareOffscreenRenderpass and prepareOffscreenFramebuffer\<close>

definition shadow_renderPassInfo :: VkRenderPassCreateInfo where
  "shadow_renderPassInfo =
     \<lparr>attachments =
        [\<lparr>format = DEPTH_FORMAT, samples = 1,
          loadOp = VK_ATTACHMENT_LOAD_OP_CLEAR, storeOp = VK_ATTACHMENT_STORE_OP_STORE,
          stencilLoadOp = VK_ATTACHMENT_LOAD_OP_DONT_CARE,
          stencilStoreOp = VK_ATTACHMENT_STORE_OP_DONT_CARE,
          initialLayout = VK_IMAGE_LAYOUT_UNDEFINED,
          finalLayout = VK_IMAGE_LAYOUT_DEPTH_STENCIL_READ_ONLY_OPTIMAL\<rparr>],
      subpasses =
        [\<lparr>colorAttachments = [],
          depthStencilAttachment =
            Some \<lparr>attachment = 0, layout = VK_IMAGE_LAYOUT_DEPTH_STENCIL_ATTACHMENT_OPTIMAL\<rparr>\<rparr>],
      dependencies =
        [\<lparr>srcSubpass = VK_SUBPASS_EXTERNAL, dstSubpass = Subpass 0,
          srcStageMask = {VK_PIPELINE_STAGE_FRAGMENT_SHADER_BIT},
          dstStageMask = {VK_PIPELINE_STAGE_EARLY_FRAGMENT_TESTS_BIT},
          srcAccessMask = {VK_ACCESS_SHADER_READ_BIT},
          dstAccessMask = {VK_ACCESS_DEPTH_STENCIL_ATTACHMENT_WRITE_BIT},
          byRegion = True\<rparr>,
         \<lparr>srcSubpass = Subpass 0, dstSubpass = VK_SUBPASS_EXTERNAL,
          srcStageMask = {VK_PIPELINE_STAGE_LATE_FRAGMENT_TESTS_BIT},
          dstStageMask = {VK_PIPELINE_STAGE_FRAGMENT_SHADER_BIT},
          srcAccessMask = {VK_ACCESS_DEPTH_STENCIL_ATTACHMENT_WRITE_BIT},
          dstAccessMask = {VK_ACCESS_SHADER_READ_BIT},
          byRegion = True\<rparr>]\<rparr>"

definition shadow_prepareOffscreenRenderpass :: "Device \<Rightarrow> shadow_OffscreenPass
    \<Rightarrow> error + shadow_OffscreenPass" where
  "shadow_prepareOffscreenRenderpass d op =
     VK_CHECK_RESULT (vkResult d (vkCreateRenderPass (Handle ''offscreenPass.renderPass'')))
       (Inr (op\<lparr>so_renderPass := Handle ''offscreenPass.renderPass'',
                 so_renderPassInfo := shadow_renderPassInfo\<rparr>))"

definition shadow_prepareOffscreenFramebuffer :: "Device \<Rightarrow> 'g shadow_state
    \<Rightarrow> error + 'g shadow_state" where
  "shadow_prepareOffscreenFramebuffer d s =
     VK_CHECK_RESULT (vkResult d (vkCreateImage (Handle ''offscreenPass.depth.image'')))
    (VK_CHECK_RESULT (vkResult d (vkAllocateMemory (Handle ''offscreenPass.depth.mem'')))
    (VK_CHECK_RESULT (vkResult d (vkBindImageMemory (Handle ''offscreenPass.depth.image'')))
    (VK_CHECK_RESULT (vkResult d (vkCreateImageView (Handle ''offscreenPass.depth.view'')))
    (VK_CHECK_RESULT (vkResult d (vkCreateSampler (Handle ''offscreenPass.depthSampler'')))
      (let op = (shadow_offscreenPass s)
             \<lparr>so_width := SHADOWMAP_DIM, so_height := SHADOWMAP_DIM,
              so_depth := \<lparr>image = Handle ''offscreenPass.depth.image'',
                            mem = Handle ''offscreenPass.depth.mem'',
                            view = Handle ''offscreenPass.depth.view'',
                            image_format = DEPTH_FORMAT,
                            image_usage = {VK_IMAGE_USAGE_DEPTH_STENCIL_ATTACHMENT_BIT,
                                           VK_IMAGE_USAGE_SAMPLED_BIT}\<rparr>,
              so_depthSampler := Handle ''offscreenPass.depthSampler''\<rparr> in
       and_then (shadow_prepareOffscreenRenderpass d op) (\<lambda>op1.
         VK_CHECK_RESULT (vkResult d (vkCreateFramebuffer (Handle ''offscreenPass.frameBuffer'')))
           (Inr (s\<lparr>shadow_offscreenPass :=
                     op1\<lparr>so_frameBuffer := Handle ''offscreenPass.frameBuffer'',
                         so_attachments := [view (so_depth op1)]\<rparr>\<rparr>))))))))"

subsection \<open>setupDescriptorSets\<close>

definition shadow_texDescriptor :: "shadow_OffscreenPass \<Rightarrow> VkDescriptorImageInfo" where
  "shadow_texDescriptor op =
     \<lparr>sampler = so_depthSampler op, imageView = view (so_depth op),
      imageLayout = VK_IMAGE_LAYOUT_DEPTH_STENCIL_READ_ONLY_OPTIMAL\<rparr>"

definition shadow_writes_quad :: "shadow_OffscreenPass \<Rightarrow> VkWriteDescriptorSet list" where
  "shadow_writes_quad op =
     [\<lparr>dstSet = Handle ''descriptorSet'',
       descriptorType = VK_DESCRIPTOR_TYPE_UNIFORM_BUFFER, dstBinding = 0,
       pInfo = BufferInfo (Handle ''uniformBuffers.debug'')\<rparr>,
      \<lparr>dstSet = Handle ''descriptorSet'',
       descriptorType = VK_DESCRIPTOR_TYPE_COMBINED_IMAGE_SAMPLER, dstBinding = 1,
       pInfo = ImageInfo (shadow_texDescriptor op)\<rparr>]"

definition shadow_writes_offscreen :: "VkWriteDescriptorSet list" where
  "shadow_writes_offscreen =
     [\<lparr>dstSet = Handle ''descriptorSets.offscreen'',
       descriptorType = VK_DESCRIPTOR_TYPE_UNIFORM_BUFFER, dstBinding = 0,
       pInfo = BufferInfo (Handle ''uniformBuffers.offscreen'')\<rparr>]"

definition shadow_writes_scene :: "shadow_OffscreenPass \<Rightarrow> VkWriteDescriptorSet list" where
  "shadow_writes_scene op =
     [\<lparr>dstSet = Handle ''descriptorSets.scene'',
       descriptorType = VK_DESCRIPTOR_TYPE_UNIFORM_BUFFER, dstBinding = 0,
       pInfo = BufferInfo (Handle ''uniformBuffers.scene'')\<rparr>,
      \<lparr>dstSet = Handle ''descriptorSets.scene'',
       descriptorType = VK_DESCRIPTOR_TYPE_COMBINED_IMAGE_SAMPLER, dstBinding = 1,
       pInfo = ImageInfo ((shadow_texDescriptor op)
                 \<lparr>sampler := so_depthSampler op, imageView := view (so_depth op)\<rparr>)\<rparr>]"

definition shadow_setupDescriptorSets :: "Device \<Rightarrow> 'g shadow_state \<Rightarrow> error + 'g shadow_state" where
  "shadow_setupDescriptorSets d s =
     (let op = shadow_offscreenPass s; w0 = descriptorWrites s in
      VK_CHECK_RESULT (vkResult d (vkAllocateDescriptorSets (Handle ''descriptorSet'')))
        (let w1 = vkUpdateDescriptorSets (shadow_writes_quad op)
                    (allocateDescriptorSet (Handle ''descriptorSet'') w0) in
      VK_CHECK_RESULT (vkResult d (vkAllocateDescriptorSets (Handle ''descriptorSets.offscreen'')))
        (let w2 = vkUpdateDescriptorSets shadow_writes_offscreen
                    (allocateDescriptorSet (Handle ''descriptorSets.offscreen'') w1) in
      VK_CHECK_RESULT (vkResult d (vkAllocateDescriptorSets (Handle ''descriptorSets.scene'')))
        (let w3 = vkUpdateDescriptorSets (shadow_writes_scene op)
                    (allocateDescriptorSet (Handle ''descriptorSets.scene'') w2) in
         Inr (s\<lparr>descriptorWrites := w3\<rparr>)))))"

subsection \<open>buildCommandBuffers\<close>

definition shadow_offscreen_commands :: "'g shadow_state \<Rightarrow> nat \<Rightarrow> cmd list" where
  "shadow_offscreen_commands s k =
     (let op = shadow_offscreenPass s in
      [CmdBeginRenderPass (so_renderPass op) (so_frameBuffer op)
         (uint (so_width op)) (uint (so_height op)) [ClearDepthStencil 1 0],
       CmdSetViewport (sint (so_width op)) (sint (so_height op)) 0 1,
       CmdSetScissor (sint (so_width op)) (sint (so_height op)) 0 0,
       CmdSetDepthBias (depthBiasConstant s) 0 (depthBiasSlope s),
       CmdBindPipeline (Handle ''pipelines.offscreen''),
       CmdBindDescriptorSets (Handle ''pipelineLayouts.offscreen'')
         (Handle ''descriptorSets.offscreen''),
       CmdBindVertexBuffers 0 (HandleAt ''scenes'' k ''vertices.buffer''),
       CmdBindIndexBuffer (HandleAt ''scenes'' k ''indices.buffer''),
       CmdDrawIndexed (indexCount (scenes s ! k)) 1 0 0 0,
       CmdEndRenderPass])"

definition shadow_quad_commands :: "'g shadow_state \<Rightarrow> cmd list" where
  "shadow_quad_commands s =
     [CmdBindDescriptorSets (Handle ''pipelineLayouts.quad'') (Handle ''descriptorSet''),
      CmdBindPipeline (Handle ''pipelines.quad''),
      CmdBindVertexBuffers 0 (Handle ''models.quad.vertices.buffer''),
      CmdBindIndexBuffer (Handle ''models.quad.indices.buffer''),
      CmdDrawIndexed (indexCount (models_quad s)) 1 0 0 0]"

definition shadow_scene_commands :: "'g shadow_state \<Rightarrow> nat \<Rightarrow> cmd list" where
  "shadow_scene_commands s k =
     [CmdBindDescriptorSets (Handle ''pipelineLayouts.quad'') (Handle ''descriptorSets.scene''),
      CmdBindPipeline (if filterPCF s then Handle ''pipelines.sceneShadowPCF''
                       else Handle ''pipelines.sceneShadow''),
      CmdBindVertexBuffers 0 (HandleAt ''scenes'' k ''vertices.buffer''),
      CmdBindIndexBuffer (HandleAt ''scenes'' k ''indices.buffer''),
      CmdDrawIndexed (indexCount (scenes s ! k)) 1 0 0 0]"

definition shadow_commands :: "'g shadow_state \<Rightarrow> nat \<Rightarrow> error + cmd list" where
  "shadow_commands s i =
     (if 0 \<le> sint (sceneIndex s) \<and> nat (sint (sceneIndex s)) < length (scenes s) then
        (let k = nat (sint (sceneIndex s)) in
         Inr (shadow_offscreen_commands s k
              @ [CmdBeginRenderPass (Handle ''renderPass'') (HandleAt ''frameBuffers'' i [])
                   (uint (width s)) (uint (height s))
                   [defaultClearColor s, ClearDepthStencil 1 0],
                 CmdSetViewport (uint (width s)) (uint (height s)) 0 1,
                 CmdSetScissor (uint (width s)) (uint (height s)) 0 0]
              @ (if displayShadowMap s then shadow_quad_commands s else [])
              @ shadow_scene_commands s k
              @ [DrawUI, CmdEndRenderPass]))
      else Inl OutOfRange)"

definition shadow_buildCommandBuffers :: "Device \<Rightarrow> 'g shadow_state \<Rightarrow> error + 'g shadow_state" where
  "shadow_buildCommandBuffers d s = record_command_buffers d (shadow_commands s) s"

subsection \<open>Uniform buffers, render and the overlay\<close>

definition shadow_updateLight :: "'g shadow_glm \<Rightarrow> 'g shadow_state \<Rightarrow> 'g shadow_state" where
  "shadow_updateLight G s = s\<lparr>lightPos := glm_lightPos G (timer s)\<rparr>"

definition shadow_updateUniformBufferOffscreen :: "'g shadow_glm \<Rightarrow> 'g shadow_state
    \<Rightarrow> 'g shadow_state" where
  "shadow_updateUniformBufferOffscreen G s =
     (let u = glm_depthMVP G (lightFOV s) (zNear s) (zFar s) (lightPos s) in
      s\<lparr>uboOffscreenVS := u, shadow_mapped_offscreen := u\<rparr>)"

definition shadow_updateUniformBuffers :: "'g shadow_glm \<Rightarrow> 'g shadow_state \<Rightarrow> 'g shadow_state" where
  "shadow_updateUniformBuffers G s =
     (let q = glm_quad G (height s) (width s);
          u = glm_sceneUBO G (width s) (height s) (zNear s) (zFar s) (zoom s) (rotation s)
                (lightPos s) (uboOffscreenVS s) in
      s\<lparr>uboVSquad := q, shadow_mapped_debug := q,
        uboVSscene := u, shadow_mapped_scene := u\<rparr>)"

definition shadow_render :: "Device \<Rightarrow> 'g shadow_glm \<Rightarrow> 'g shadow_state \<Rightarrow> error + 'g shadow_state" where
  "shadow_render d G s =
     (if \<not> prepared s then Inr s
      else and_then (draw d s) (\<lambda>s1.
             if \<not> paused s1 \<or> updated (camera s1)
             then Inr (shadow_updateUniformBuffers G
                        (shadow_updateUniformBufferOffscreen G (shadow_updateLight G s1)))
             else Inr s1))"

record shadow_overlay =
  sov_header :: bool
  sov_Scenes :: "32 word option"
  sov_Display :: "bool option"
  sov_PCF :: "bool option"

definition shadow_OnUpdateUIOverlay :: "Device \<Rightarrow> shadow_overlay \<Rightarrow> 'g shadow_state
    \<Rightarrow> error + 'g shadow_state" where
  "shadow_OnUpdateUIOverlay d ov s =
     (if sov_header ov then
        and_then
          (case sov_Scenes ov of
             None \<Rightarrow> Inr s
           | Some k \<Rightarrow> shadow_buildCommandBuffers d (s\<lparr>sceneIndex := k\<rparr>))
          (\<lambda>s1. and_then
             (case sov_Display ov of
                None \<Rightarrow> Inr s1
              | Some v \<Rightarrow> shadow_buildCommandBuffers d (s1\<lparr>displayShadowMap := v\<rparr>))
             (\<lambda>s2. case sov_PCF ov of
                      None \<Rightarrow> Inr s2
                    | Some v \<Rightarrow> shadow_buildCommandBuffers d (s2\<lparr>filterPCF := v\<rparr>)))
      else Inr s)"

subsection \<open>The resources of the shadow-mapping example\<close>

definition shadow_resources :: "'g shadow_state \<Rightarrow> resources" where
  "shadow_resources s =
     (let op = shadow_offscreenPass s in
      \<lparr>res_targets = [(so_frameBuffer op, so_attachments op)],
       res_renderPasses = [(so_renderPass op, so_renderPassInfo op)],
       res_writes = descriptorWrites s\<rparr>)"

definition shadow_offscreenPass_of :: shadow_OffscreenPass where
  "shadow_offscreenPass_of =
     \<lparr>so_width = SHADOWMAP_DIM, so_height = SHADOWMAP_DIM,
      so_frameBuffer = Handle ''offscreenPass.frameBuffer'',
      so_attachments = [Handle ''offscreenPass.depth.view''],
      so_depth = \<lparr>image = Handle ''offscreenPass.depth.image'',
                  mem = Handle ''offscreenPass.depth.mem'',
                  view = Handle ''offscreenPass.depth.view'',
                  image_format = DEPTH_FORMAT,
                  image_usage = {VK_IMAGE_USAGE_DEPTH_STENCIL_ATTACHMENT_BIT,
                                 VK_IMAGE_USAGE_SAMPLED_BIT}\<rparr>,
      so_renderPass = Handle ''offscreenPass.renderPass'',
      so_renderPassInfo = shadow_renderPassInfo,
      so_depthSampler = Handle ''offscreenPass.depthSampler''\<rparr>"

definition shadow_ready :: "'g shadow_state \<Rightarrow> bool" where
  "shadow_ready s =
     (shadow_offscreenPass s = shadow_offscreenPass_of
      \<and> sampled_images (descriptorWrites s) (Handle ''descriptorSet'')
          = [shadow_texDescriptor (shadow_offscreenPass s)]
      \<and> sampled_images (descriptorWrites s) (Handle ''descriptorSets.offscreen'') = []
      \<and> sampled_images (descriptorWrites s) (Handle ''descriptorSets.scene'')
          = [shadow_texDescriptor (shadow_offscreenPass s)])"

section \<open>The PBR example\<close>

text \<open>
  The class \<open>VulkanExample\<close> of the physically based shading example (the first unnamed
  source file). \<open>SINGLE_ROW\<close> is not defined, so the grid loop is the one compiled.
\<close>

record Material =
  params :: PushBlock
  name :: string

record 'g pbr_state = "'g base_state" +
  models_objects :: "Model list"
  models_objectIndex :: "32 word"
  materials :: "Material list"
  materialIndex :: "32 word"
  uboMatrices :: 'g
  uboParams :: 'g
  pbr_mapped_object :: 'g
  pbr_mapped_params :: 'g

record 'g pbr_glm =
  glm_matrices :: "'g Camera \<Rightarrow> 32 word \<Rightarrow> 'g"
  glm_lights :: "bool \<Rightarrow> real \<Rightarrow> 'g"

definition GRID_DIM :: nat where
  "GRID_DIM = 7"

definition pbr_grid_commands :: "PushBlock \<Rightarrow> 32 word \<Rightarrow> cmd list" where
  "pbr_grid_commands mat n =
     concat (map (\<lambda>y. concat (map (\<lambda>x.
       [CmdPushConstants (Handle ''pipelineLayout'') VK_SHADER_STAGE_VERTEX_BIT (PushPos x y),
        CmdPushConstants (Handle ''pipelineLayout'') VK_SHADER_STAGE_FRAGMENT_BIT (PushMat mat x y),
        CmdDrawIndexed n 1 0 0 0]) [0..<GRID_DIM])) [0..<GRID_DIM])"

definition pbr_commands :: "'g pbr_state \<Rightarrow> nat \<Rightarrow> error + cmd list" where
  "pbr_commands s i =
     (if 0 \<le> sint (models_objectIndex s)
         \<and> nat (sint (models_objectIndex s)) < length (models_objects s)
         \<and> 0 \<le> sint (materialIndex s)
         \<and> nat (sint (materialIndex s)) < length (materials s) then
        (let k = nat (sint (models_objectIndex s));
             mat = materials s ! nat (sint (materialIndex s)) in
         Inr ([CmdBeginRenderPass (Handle ''renderPass'') (HandleAt ''frameBuffers'' i [])
                 (uint (width s)) (uint (height s))
                 [defaultClearColor s, ClearDepthStencil 1 0],
               CmdSetViewport (uint (width s)) (uint (height s)) 0 1,
               CmdSetScissor (uint (width s)) (uint (height s)) 0 0,
               CmdBindPipeline (Handle ''pipeline''),
               CmdBindDescriptorSets (Handle ''pipelineLayout'') (Handle ''descriptorSet''),
               CmdBindVertexBuffers 0 (HandleAt ''models.objects'' k ''vertices.buffer''),
               CmdBindIndexBuffer (HandleAt ''models.objects'' k ''indices.buffer'')]
              @ pbr_grid_commands (params mat) (indexCount (models_objects s ! k))
              @ [DrawUI, CmdEndRenderPass]))
      else Inl OutOfRange)"

definition pbr_buildCommandBuffers :: "Device \<Rightarrow> 'g pbr_state \<Rightarrow> error + 'g pbr_state" where
  "pbr_buildCommandBuffers d s = record_command_buffers d (pbr_commands s) s"

definition pbr_updateUniformBuffers :: "'g pbr_glm \<Rightarrow> 'g pbr_state \<Rightarrow> 'g pbr_state" where
  "pbr_updateUniformBuffers G s =
     (let u = glm_matrices G (camera s) (models_objectIndex s) in
      s\<lparr>uboMatrices := u, pbr_mapped_object := u\<rparr>)"

definition pbr_updateLights :: "'g pbr_glm \<Rightarrow> 'g pbr_state \<Rightarrow> 'g pbr_state" where
  "pbr_updateLights G s =
     (let u = glm_lights G (paused s) (timer s) in
      s\<lparr>uboParams := u, pbr_mapped_params := u\<rparr>)"

definition pbr_render :: "Device \<Rightarrow> 'g pbr_glm \<Rightarrow> 'g pbr_state \<Rightarrow> error + 'g pbr_state" where
  "pbr_render d G s =
     (if \<not> prepared s then Inr s
      else and_then (draw d s) (\<lambda>s1.
             if \<not> paused s1 then Inr (pbr_updateLights G s1) else Inr s1))"

definition pbr_viewChanged :: "'g pbr_glm \<Rightarrow> 'g pbr_state \<Rightarrow> 'g pbr_state" where
  "pbr_viewChanged G s = pbr_updateUniformBuffers G s"

record pbr_overlay =
  pov_header :: bool
  pov_Material :: "32 word option"
  pov_Object :: "32 word option"

definition pbr_OnUpdateUIOverlay :: "Device \<Rightarrow> 'g pbr_glm \<Rightarrow> pbr_overlay \<Rightarrow> 'g pbr_state
    \<Rightarrow> error + 'g pbr_state" where
  "pbr_OnUpdateUIOverlay d G ov s =
     (if pov_header ov then
        and_then
          (case pov_Material ov of
             None \<Rightarrow> Inr s
           | Some k \<Rightarrow> pbr_buildCommandBuffers d (s\<lparr>materialIndex := k\<rparr>))
          (\<lambda>s1. case pov_Object ov of
                   None \<Rightarrow> Inr s1
                 | Some k \<Rightarrow>
                     pbr_buildCommandBuffers d
                       (pbr_updateUniformBuffers G (s1\<lparr>models_objectIndex := k\<rparr>)))
      else Inr s)"

section \<open>The screenshot example\<close>

text \<open>
  Of \<open>examples/screenshot/screenshot.cpp\<close>: the command buffers, the uniform buffer and
  \<open>render\<close>. \<open>saveScreenshot\<close> works on a command buffer of its own and is not modelled.
\<close>

record 'g screenshot_state = "'g base_state" +
  model_dragon :: Model
  uboVS :: 'g
  screenshot_mapped :: 'g
  screenshotSaved :: bool

definition screenshot_commands :: "'g screenshot_state \<Rightarrow> nat \<Rightarrow> cmd list" where
  "screenshot_commands s i =
     [CmdBeginRenderPass (Handle ''renderPass'') (HandleAt ''frameBuffers'' i [])
        (uint (width s)) (uint (height s)) [defaultClearColor s, ClearDepthStencil 1 0],
      CmdSetViewport (uint (width s)) (uint (height s)) 0 1,
      CmdSetScissor (uint (width s)) (uint (height s)) 0 0,
      CmdBindDescriptorSets (Handle ''pipelineLayout'') (Handle ''descriptorSet''),
      CmdBindPipeline (Handle ''pipeline''),
      CmdBindVertexBuffers 0 (Handle ''model.vertices.buffer''),
      CmdBindIndexBuffer (Handle ''model.indices.buffer''),
      CmdDrawIndexed (indexCount (model_dragon s)) 1 0 0 0,
      DrawUI,
      CmdEndRenderPass]"

definition screenshot_buildCommandBuffers :: "Device \<Rightarrow> 'g screenshot_state
    \<Rightarrow> error + 'g screenshot_state" where
  "screenshot_buildCommandBuffers d s =
     record_command_buffers d (\<lambda>i. Inr (screenshot_commands s i)) s"

definition screenshot_updateUniformBuffers :: "('g Camera \<Rightarrow> 'g) \<Rightarrow> 'g screenshot_state
    \<Rightarrow> 'g screenshot_state" where
  "screenshot_updateUniformBuffers G s =
     (let u = G (camera s) in s\<lparr>uboVS := u, screenshot_mapped := u\<rparr>)"

definition screenshot_render :: "Device \<Rightarrow> 'g screenshot_state \<Rightarrow> error + 'g screenshot_state" where
  "screenshot_render d s = (if \<not> prepared s then Inr s else draw d s)"

section \<open>The older offscreen shadow-mapping example\<close>

text \<open>
  \<open>examples/offscreen/shadowmapping.cpp\<close> extends \<open>vkx::OffscreenExampleBase\<close>, whose source
  is not given. Its \<open>prepare\<close> configures the member \<open>offscreen\<close> of that base class and
  leaves the creation of the render pass to it; \<open>setupDescriptorSets\<close> declares the
  layout in which the shadow map is sampled.
\<close>

record OffscreenConfig =
  oc_size :: nat
  oc_depthFormat :: VkFormat
  oc_depthFinalLayout :: VkImageLayout
  oc_colorFinalLayout :: VkImageLayout
  oc_attachmentUsage :: "VkImageUsageFlagBits set"
  oc_depthAttachmentUsage :: "VkImageUsageFlagBits set"

definition offscreen_prepare_config :: "OffscreenConfig \<Rightarrow> OffscreenConfig" where
  "offscreen_prepare_config c =
     c\<lparr>oc_size := 2048,
       oc_depthFormat := VK_FORMAT_D16_UNORM,
       oc_depthFinalLayout := VK_IMAGE_LAYOUT_SHADER_READ_ONLY_OPTIMAL,
       oc_colorFinalLayout := VK_IMAGE_LAYOUT_COLOR_ATTACHMENT_OPTIMAL,
       oc_attachmentUsage := {},
       oc_depthAttachmentUsage := {VK_IMAGE_USAGE_SAMPLED_BIT}\<rparr>"

definition offscreen_texDescriptor :: VkDescriptorImageInfo where
  "offscreen_texDescriptor =
     \<lparr>sampler = Handle ''offscreen.framebuffers[0].depth.sampler'',
      imageView = Handle ''offscreen.framebuffers[0].depth.view'',
      imageLayout = VK_IMAGE_LAYOUT_GENERAL\<rparr>"

definition offscreen_writes :: "VkWriteDescriptorSet list" where
  "offscreen_writes =
     [\<lparr>dstSet = Handle ''descriptorSet'',
       descriptorType = VK_DESCRIPTOR_TYPE_UNIFORM_BUFFER, dstBinding = 0,
       pInfo = BufferInfo (Handle ''uniformDataVS'')\<rparr>,
      \<lparr>dstSet = Handle ''descriptorSet'',
       descriptorType = VK_DESCRIPTOR_TYPE_COMBINED_IMAGE_SAMPLER, dstBinding = 1,
       pInfo = ImageInfo offscreen_texDescriptor\<rparr>,
      \<lparr>dstSet = Handle ''descriptorSets.offscreen'',
       descriptorType = VK_DESCRIPTOR_TYPE_UNIFORM_BUFFER, dstBinding = 0,
       pInfo = BufferInfo (Handle ''uniformDataOffscreenVS'')\<rparr>,
      \<lparr>dstSet = Handle ''descriptorSets.scene'',
       descriptorType = VK_DESCRIPTOR_TYPE_UNIFORM_BUFFER, dstBinding = 0,
       pInfo = BufferInfo (Handle ''uniformData.scene'')\<rparr>,
      \<lparr>dstSet = Handle ''descriptorSets.scene'',
       descriptorType = VK_DESCRIPTOR_TYPE_COMBINED_IMAGE_SAMPLER, dstBinding = 1,
       pInfo = ImageInfo offscreen_texDescriptor\<rparr>]"

section \<open>Concrete runs\<close>

text \<open>
  A device that accepts every call, and for each example a state as its constructor
  and the base class leave it: three command buffers with nothing recorded, a window of
  1280 by 720, and the member initialisers of the source. The type of \<open>glm\<close> values is
  \<open>nat\<close> here; the numbers stand for vectors and matrices.
\<close>

definition device_ok :: Device where
  "device_ok = \<lparr>vkResult = (\<lambda>c. VK_SUCCESS),
                 supportedDepthFormat = Some VK_FORMAT_D32_SFLOAT_S8_UINT,
                 acquiredImage = 1\<rparr>"

definition null_attachment :: FrameBufferAttachment where
  "null_attachment = \<lparr>image = VK_NULL_HANDLE, mem = VK_NULL_HANDLE, view = VK_NULL_HANDLE,
                       image_format = VK_FORMAT_R8G8B8A8_UNORM, image_usage = {}\<rparr>"

definition null_FrameBuffer :: FrameBuffer where
  "null_FrameBuffer =
     \<lparr>framebuffer = VK_NULL_HANDLE, color = null_attachment, depth = null_attachment,
      descriptor = \<lparr>sampler = VK_NULL_HANDLE, imageView = VK_NULL_HANDLE,
                    imageLayout = VK_IMAGE_LAYOUT_UNDEFINED\<rparr>,
      fb_renderPass = VK_NULL_HANDLE, fb_attachments = []\<rparr>"

definition null_renderPassInfo :: VkRenderPassCreateInfo where
  "null_renderPassInfo = \<lparr>attachments = [], subpasses = [], dependencies = []\<rparr>"

definition bloom_start :: "nat bloom_state" where
  "bloom_start =
     \<lparr>prepared = False, paused = False, width = 1280, height = 720,
      defaultClearColor = ClearColor 0 0 0 1, timer = 0, zoom = 0, rotation = 0,
      cameraPos = 0,
      camera = \<lparr>updated = False, matrices_perspective = 1, matrices_view = 2, position = 3\<rparr>,
      currentBuffer = 0, drawCmdBuffers = [[], [], []], submitted = [],
      descriptorWrites = [],
      bloom = True,
      models_ufo = \<lparr>indexCount = 3000\<rparr>, models_ufoGlow = \<lparr>indexCount = 600\<rparr>,
      models_skyBox = \<lparr>indexCount = 36\<rparr>,
      cubemap_imageLayout = VK_IMAGE_LAYOUT_SHADER_READ_ONLY_OPTIMAL,
      ubos_scene = 0, ubos_skyBox = 0,
      ubos_blurParams = \<lparr>blurScale = 1, blurStrength = 3 / 2\<rparr>,
      mapped_scene = 0, mapped_skyBox = 0,
      mapped_blurParams = \<lparr>blurScale = 0, blurStrength = 0\<rparr>,
      bloom_offscreenPass =
        \<lparr>bo_width = 0, bo_height = 0, bo_renderPass = VK_NULL_HANDLE,
         bo_renderPassInfo = null_renderPassInfo, bo_sampler = VK_NULL_HANDLE,
         bo_framebuffers0 = null_FrameBuffer, bo_framebuffers1 = null_FrameBuffer\<rparr>\<rparr>"

text \<open>The bloom example after \<open>prepareOffscreen\<close> and \<open>setupDescriptorSet\<close>.\<close>

definition bloom_set_up :: "nat bloom_state" where
  "bloom_set_up =
     bloom_start
       \<lparr>descriptorWrites :=
          bloom_writes_blurVert (bloom_offscreenPass_of VK_FORMAT_D32_SFLOAT_S8_UINT)
          @ bloom_writes_blurHorz (bloom_offscreenPass_of VK_FORMAT_D32_SFLOAT_S8_UINT)
          @ bloom_writes_scene
          @ bloom_writes_skyBox VK_IMAGE_LAYOUT_SHADER_READ_ONLY_OPTIMAL,
        bloom_offscreenPass := bloom_offscreenPass_of VK_FORMAT_D32_SFLOAT_S8_UINT\<rparr>"

definition bloom_glm_example :: "nat bloom_glm" where
  "bloom_glm_example =
     \<lparr>glm_scene = (\<lambda>c t p. matrices_view c + p + 7),
      glm_skyBox = (\<lambda>w h c. unat w + unat h + matrices_view c)\<rparr>"

definition shadow_start :: "nat shadow_state" where
  "shadow_start =
     \<lparr>prepared = False, paused = False, width = 1280, height = 720,
      defaultClearColor = ClearColor 0 0 0 1, timer = 0, zoom = - 20, rotation = 0,
      cameraPos = 0,
      camera = \<lparr>updated = False, matrices_perspective = 1, matrices_view = 2, position = 3\<rparr>,
      currentBuffer = 0, drawCmdBuffers = [[], [], []], submitted = [],
      descriptorWrites = [],
      displayShadowMap = False, filterPCF = True, zNear = 1, zFar = 96,
      depthBiasConstant = 5 / 4, depthBiasSlope = 7 / 4, lightPos = 0, lightFOV = 45,
      models_quad = \<lparr>indexCount = 6\<rparr>,
      scenes = [\<lparr>indexCount = 9000\<rparr>, \<lparr>indexCount = 4500\<rparr>],
      sceneIndex = 0,
      uboVSquad = 0, uboVSscene = 0, uboOffscreenVS = 0,
      shadow_mapped_debug = 0, shadow_mapped_offscreen = 0, shadow_mapped_scene = 0,
      shadow_offscreenPass =
        \<lparr>so_width = 0, so_height = 0, so_frameBuffer = VK_NULL_HANDLE, so_attachments = [],
         so_depth = null_attachment, so_renderPass = VK_NULL_HANDLE,
         so_renderPassInfo = null_renderPassInfo, so_depthSampler = VK_NULL_HANDLE\<rparr>\<rparr>"

text \<open>The shadow-mapping example after \<open>prepareOffscreenFramebuffer\<close> and \<open>setupDescriptorSets\<close>.\<close>

definition shadow_set_up :: "nat shadow_state" where
  "shadow_set_up =
     shadow_start
       \<lparr>descriptorWrites :=
          shadow_writes_quad shadow_offscreenPass_of
          @ shadow_writes_offscreen
          @ shadow_writes_scene shadow_offscreenPass_of,
        shadow_offscreenPass := shadow_offscreenPass_of\<rparr>"

definition shadow_glm_example :: "nat shadow_glm" where
  "shadow_glm_example =
     \<lparr>glm_lightPos = (\<lambda>t. 5),
      glm_depthMVP = (\<lambda>fov n f l. l + 1),
      glm_quad = (\<lambda>h w. unat h + unat w),
      glm_sceneUBO = (\<lambda>w h n f z rot l m. rot + l + m)\<rparr>"

definition pbr_start :: "nat pbr_state" where
  "pbr_start =
     \<lparr>prepared = False, paused = True, width = 1280, height = 720,
      defaultClearColor = ClearColor 0 0 0 1, timer = 0, zoom = 0, rotation = 0,
      cameraPos = 0,
      camera = \<lparr>updated = False, matrices_perspective = 1, matrices_view = 2, position = 3\<rparr>,
      currentBuffer = 0, drawCmdBuffers = [[], [], []], submitted = [],
      descriptorWrites = [],
      models_objects = [\<lparr>indexCount = 960\<rparr>, \<lparr>indexCount = 6000\<rparr>,
                        \<lparr>indexCount = 7200\<rparr>, \<lparr>indexCount = 30000\<rparr>],
      models_objectIndex = 0,
      materials =
        [\<lparr>params = \<lparr>roughness = 1 / 10, metallic = 1, pb_r = 1, pb_g = 765557 / 1000000,
                     pb_b = 336057 / 1000000\<rparr>, name = ''Gold''\<rparr>,
         \<lparr>params = \<lparr>roughness = 1 / 10, metallic = 1, pb_r = 955008 / 1000000,
                     pb_g = 637427 / 1000000, pb_b = 538163 / 1000000\<rparr>, name = ''Copper''\<rparr>],
      materialIndex = 0,
      uboMatrices = 0, uboParams = 0, pbr_mapped_object = 0, pbr_mapped_params = 0\<rparr>"

definition pbr_glm_example :: "nat pbr_glm" where
  "pbr_glm_example =
     \<lparr>glm_matrices = (\<lambda>c k. matrices_view c + unat k),
      glm_lights = (\<lambda>p t. if p then 15 else 20)\<rparr>"

definition screenshot_start :: "nat screenshot_state" where
  "screenshot_start =
     \<lparr>prepared = False, paused = False, width = 1280, height = 720,
      defaultClearColor = ClearColor 0 0 0 1, timer = 0, zoom = 0, rotation = 0,
      cameraPos = 0,
      camera = \<lparr>updated = False, matrices_perspective = 1, matrices_view = 2, position = 3\<rparr>,
      currentBuffer = 0, drawCmdBuffers = [[], [], []], submitted = [],
      descriptorWrites = [],
      model_dragon = \<lparr>indexCount = 50000\<rparr>,
      uboVS = 0, screenshot_mapped = 0, screenshotSaved = False\<rparr>"

text \<open>The two examples after \<open>buildCommandBuffers\<close> on the accepting device.\<close>

definition bloom_recorded :: "nat bloom_state" where
  "bloom_recorded =
     bloom_set_up\<lparr>drawCmdBuffers := map (bloom_commands bloom_set_up) [0..<3]\<rparr>"

definition shadow_recorded :: "nat shadow_state" where
  "shadow_recorded =
     shadow_set_up\<lparr>drawCmdBuffers :=
       map (\<lambda>i. projr (shadow_commands shadow_set_up i)) [0..<3]\<rparr>"

section \<open>Set-up and the states of a run\<close>

text \<open>
  \<open>prepare\<close> of the bloom example calls \<open>prepareOffscreen\<close> and, later,
  \<open>setupDescriptorSet\<close>; the calls between them create layouts, pipelines and the
  descriptor pool and touch neither the offscreen pass nor the descriptor contents.
  A state \<open>s\<close> is set up from \<open>s0\<close> on the device \<open>d\<close> when both calls succeed and \<open>s\<close>
  holds the offscreen pass and the descriptor contents they leave. Nothing that runs
  after \<open>prepare\<close> writes these members.
\<close>

definition bloom_set_up_by :: "Device \<Rightarrow> 'g bloom_state \<Rightarrow> 'g bloom_state \<Rightarrow> bool" where
  "bloom_set_up_by d s0 s =
     (case and_then (bloom_prepareOffscreen d s0) (bloom_setupDescriptorSet d) of
        Inl e \<Rightarrow> False
      | Inr s2 \<Rightarrow> bloom_offscreenPass s = bloom_offscreenPass s2
                 \<and> descriptorWrites s = descriptorWrites s2
                 \<and> cubemap_imageLayout s = cubemap_imageLayout s2)"

text \<open>
  The same for the shadow-mapping example, whose \<open>prepare\<close> calls
  \<open>prepareOffscreenFramebuffer\<close> and, later, \<open>setupDescriptorSets\<close>.
\<close>

definition shadow_set_up_by :: "Device \<Rightarrow> 'g shadow_state \<Rightarrow> 'g shadow_state \<Rightarrow> bool" where
  "shadow_set_up_by d s0 s =
     (case and_then (shadow_prepareOffscreenFramebuffer d s0) (shadow_setupDescriptorSets d) of
        Inl e \<Rightarrow> False
      | Inr s2 \<Rightarrow> shadow_offscreenPass s = shadow_offscreenPass s2
                 \<and> descriptorWrites s = descriptorWrites s2)"

text \<open>
  A state holds its recording when the command buffers are the ones
  \<open>buildCommandBuffers\<close> records for the current values of the members.
\<close>

definition bloom_holds_recording :: "'g bloom_state \<Rightarrow> bool" where
  "bloom_holds_recording s =
     (drawCmdBuffers s = map (bloom_commands s) [0..<length (drawCmdBuffers s)])"

definition shadow_holds_recording :: "'g shadow_state \<Rightarrow> bool" where
  "shadow_holds_recording s =
     (map Inr (drawCmdBuffers s) = map (shadow_commands s) [0..<length (drawCmdBuffers s)])"

text \<open>
  Concrete states of a run on the accepting device: after \<open>prepare\<close> has set \<open>prepared\<close>,
  after one \<open>render\<close>, and after the overlay has switched bloom off or the display of
  the shadow map on.
\<close>

definition bloom_running :: "nat bloom_state" where
  "bloom_running = bloom_recorded\<lparr>prepared := True\<rparr>"

definition bloom_rendered :: "nat bloom_state" where
  "bloom_rendered =
     bloom_running\<lparr>currentBuffer := 1, submitted := [drawCmdBuffers bloom_running ! 1],
       ubos_scene := 9, mapped_scene := 9, ubos_skyBox := 2002, mapped_skyBox := 2002\<rparr>"

definition bloom_off_overlay :: bloom_overlay where
  "bloom_off_overlay = \<lparr>bov_header = True, bov_Bloom = Some False, bov_Scale = None\<rparr>"

definition bloom_running_off :: "nat bloom_state" where
  "bloom_running_off =
     bloom_running\<lparr>drawCmdBuffers :=
         map (\<lambda>i. bloom_scene_commands bloom_running i @ [DrawUI, CmdEndRenderPass]) [0..<3],
       bloom := False\<rparr>"

definition shadow_running :: "nat shadow_state" where
  "shadow_running = shadow_recorded\<lparr>prepared := True\<rparr>"

definition shadow_rendered :: "nat shadow_state" where
  "shadow_rendered =
     shadow_running\<lparr>currentBuffer := 1, submitted := [drawCmdBuffers shadow_running ! 1],
       lightPos := 5, uboOffscreenVS := 6, shadow_mapped_offscreen := 6,
       uboVSquad := 2000, shadow_mapped_debug := 2000,
       uboVSscene := 11, shadow_mapped_scene := 11\<rparr>"

definition shadow_display_overlay :: shadow_overlay where
  "shadow_display_overlay =
     \<lparr>sov_header = True, sov_Scenes = None, sov_Display = Some True, sov_PCF = None\<rparr>"

definition shadow_running_display :: "nat shadow_state" where
  "shadow_running_display =
     shadow_running\<lparr>displayShadowMap := True,
       drawCmdBuffers :=
         map (\<lambda>i. projr (shadow_commands (shadow_running\<lparr>displayShadowMap := True\<rparr>) i)) [0..<3]\<rparr>"

section \<open>Lemmas on the error type and the recording loop\<close>

lemma and_then_simps [simp]:
  "and_then (Inr x) k = k x" "and_then (Inl e) k = Inl e"
  by (simp_all add: and_then_def)

lemma and_then_Inr_iff:
  "and_then res k = Inr y \<longleftrightarrow> (\<exists>x. res = Inr x \<and> k x = Inr y)"
  by (cases res) auto

lemma and_then_Inl_iff:
  "and_then res k = Inl e \<longleftrightarrow> (res = Inl e \<or> (\<exists>x. res = Inr x \<and> k x = Inl e))"
  by (cases res) auto

lemma check_success [simp]: "VK_CHECK_RESULT VK_SUCCESS k = k"
  by (simp add: VK_CHECK_RESULT_def)

lemma check_Inr_iff:
  "VK_CHECK_RESULT res k = Inr y \<longleftrightarrow> (res = VK_SUCCESS \<and> k = Inr y)"
  by (simp add: VK_CHECK_RESULT_def)

lemma check_Inl_iff:
  "VK_CHECK_RESULT res k = Inl e \<longleftrightarrow>
     (if res = VK_SUCCESS then k = Inl e else e = DeviceError res)"
  by (auto simp: VK_CHECK_RESULT_def)

lemma record_all_Inr:
  "record_all f xs = Inr cbs \<longleftrightarrow> map f xs = map Inr cbs"
proof (induction xs arbitrary: cbs)
  case Nil
  then show ?case by auto
next
  case (Cons x xs)
  show ?case
    by (cases cbs) (auto simp: and_then_Inr_iff Cons.IH)
qed

lemma record_all_Inl:
  "record_all f xs = Inl e \<Longrightarrow> \<exists>x \<in> set xs. f x = Inl e"
  by (induction xs) (auto simp: and_then_Inl_iff)

lemma record_buffer_Inr:
  "record_buffer d body i = Inr cs \<longleftrightarrow>
     (vkResult d (vkBeginCommandBuffer (HandleAt ''drawCmdBuffers'' i [])) = VK_SUCCESS
      \<and> body i = Inr cs
      \<and> vkResult d (vkEndCommandBuffer (HandleAt ''drawCmdBuffers'' i [])) = VK_SUCCESS)"
  by (auto simp: record_buffer_def check_Inr_iff and_then_Inr_iff)

lemma record_buffer_Inl:
  "record_buffer d body i = Inl e \<Longrightarrow>
     body i = Inl e \<or> (\<exists>res. e = DeviceError res \<and> res \<noteq> VK_SUCCESS)"
  by (auto simp: record_buffer_def check_Inl_iff and_then_Inl_iff split: if_splits)

lemma record_command_buffers_Inr:
  "record_command_buffers d body s = Inr s' \<longleftrightarrow>
     (\<exists>cbs. s' = s\<lparr>drawCmdBuffers := cbs\<rparr>
        \<and> length cbs = length (drawCmdBuffers s)
        \<and> (\<forall>i < length cbs. record_buffer d body i = Inr (cbs ! i)))"
proof -
  have *: "map (record_buffer d body) [0..<n] = map Inr cbs \<longleftrightarrow>
        (length cbs = n \<and> (\<forall>i < length cbs. record_buffer d body i = Inr (cbs ! i)))" for n cbs
    by (auto simp: list_eq_iff_nth_eq)
  show ?thesis
    unfolding record_command_buffers_def and_then_Inr_iff record_all_Inr *
    by auto
qed

lemma record_command_buffers_Inl:
  assumes "record_command_buffers d body s = Inl e"
  shows "\<exists>i < length (drawCmdBuffers s). record_buffer d body i = Inl e"
  using assms record_all_Inl[of "record_buffer d body" "[0..<length (drawCmdBuffers s)]" e]
  by (auto simp: record_command_buffers_def and_then_Inl_iff)

section \<open>render before prepare\<close>

text \<open>
  Claim C9. In the bloom, shadow-mapping, PBR and screenshot examples, \<open>render\<close> called
  while \<open>prepared\<close> is false returns at once: the state it leaves is the state it found,
  so nothing was submitted (\<open>submitted\<close>), no uniform buffer was written (the mapped
  memory) and no other member changed. The older offscreen example defines no
  \<open>render\<close> of its own.
\<close>

theorem render_before_prepare_is_noop:
  fixes sb :: "'a bloom_state" and ss :: "'b shadow_state"
    and sp :: "'c pbr_state" and sc :: "'e screenshot_state"
  shows "(\<not> prepared sb \<longrightarrow> bloom_render d Gb sb = Inr sb)
       \<and> (\<not> prepared ss \<longrightarrow> shadow_render d Gs ss = Inr ss)
       \<and> (\<not> prepared sp \<longrightarrow> pbr_render d Gp sp = Inr sp)
       \<and> (\<not> prepared sc \<longrightarrow> screenshot_render d sc = Inr sc)"
  by (simp add: bloom_render_def shadow_render_def pbr_render_def screenshot_render_def)

theorem render_before_prepare_is_noop_witness:
  "\<not> prepared bloom_start
   \<and> bloom_render device_ok bloom_glm_example bloom_start = Inr bloom_start
   \<and> \<not> prepared shadow_start
   \<and> shadow_render device_ok shadow_glm_example shadow_start = Inr shadow_start
   \<and> \<not> prepared pbr_start
   \<and> pbr_render device_ok pbr_glm_example pbr_start = Inr pbr_start
   \<and> \<not> prepared screenshot_start
   \<and> screenshot_render device_ok screenshot_start = Inr screenshot_start"
  using render_before_prepare_is_noop [of bloom_start device_ok bloom_glm_example
      shadow_start shadow_glm_example pbr_start pbr_glm_example screenshot_start]
  by (simp add: bloom_start_def shadow_start_def pbr_start_def screenshot_start_def)

text \<open>
  For comparison, the same call once \<open>prepared\<close> is true: the command buffer of the
  acquired image is submitted and the scene uniform buffers are rewritten.
\<close>

lemma render_prepared_submits:
  "bloom_render device_ok bloom_glm_example (bloom_start\<lparr>prepared := True\<rparr>)
     = Inr (bloom_start\<lparr>prepared := True, currentBuffer := 1, submitted := [[]],
              ubos_scene := 9, mapped_scene := 9, ubos_skyBox := 2002, mapped_skyBox := 2002\<rparr>)"
  by (simp add: bloom_render_def draw_def prepareFrame_def submitFrame_def device_ok_def
      bloom_start_def bloom_updateUniformBuffersScene_def bloom_glm_example_def)

section \<open>Topological validity of the recorded frames\<close>

lemma valid_from_iff:
  "valid_from R W ps \<longleftrightarrow>
     (\<forall>j < length ps. \<forall>v \<in> set (pass_reads R (ps ! j)).
        (v \<in> set W \<or> (\<exists>k < j. v \<in> set (pass_writes R (ps ! k))))
        \<and> v \<notin> set (pass_writes R (ps ! j)))"
proof (induction ps arbitrary: W)
  case Nil
  then show ?case by simp
next
  case (Cons p ps)
  show ?case
    by (auto simp add: Cons.IH All_less_Suc2 Ex_less_Suc2)
qed

lemma topologically_valid_scan: "topologically_valid R ps \<longleftrightarrow> valid_from R [] ps"
  by (simp add: valid_from_iff topologically_valid_def)

lemma bloom_passes_on:
  "bloom s \<Longrightarrow> passes (bloom_commands s i) =
     [\<lparr>p_renderPass = bo_renderPass (bloom_offscreenPass s),
       p_framebuffer = framebuffer (bo_framebuffers0 (bloom_offscreenPass s)),
       p_sets = [Handle ''descriptorSets.scene'']\<rparr>,
      \<lparr>p_renderPass = bo_renderPass (bloom_offscreenPass s),
       p_framebuffer = framebuffer (bo_framebuffers1 (bloom_offscreenPass s)),
       p_sets = [Handle ''descriptorSets.blurVert'']\<rparr>,
      \<lparr>p_renderPass = Handle ''renderPass'',
       p_framebuffer = HandleAt ''frameBuffers'' i [],
       p_sets = [Handle ''descriptorSets.skyBox'', Handle ''descriptorSets.scene'',
                 Handle ''descriptorSets.blurHorz'']\<rparr>]"
  by (simp add: passes_def bloom_commands_def bloom_offscreen_commands_def
      bloom_scene_commands_def bloom_blurHorz_commands_def use_set_def Let_def)

lemma bloom_passes_off:
  "\<not> bloom s \<Longrightarrow> passes (bloom_commands s i) =
     [\<lparr>p_renderPass = Handle ''renderPass'',
       p_framebuffer = HandleAt ''frameBuffers'' i [],
       p_sets = [Handle ''descriptorSets.skyBox'', Handle ''descriptorSets.scene'']\<rparr>]"
  by (simp add: passes_def bloom_commands_def bloom_offscreen_commands_def
      bloom_scene_commands_def bloom_blurHorz_commands_def use_set_def Let_def)

lemma bloom_ready_targets:
  assumes "bloom_ready fmt s"
  shows "res_targets (bloom_resources s) =
     [(HandleAt ''offscreenPass.framebuffers'' 0 ''framebuffer'',
        [HandleAt ''offscreenPass.framebuffers'' 0 ''color.view'',
         HandleAt ''offscreenPass.framebuffers'' 0 ''depth.view'']),
      (HandleAt ''offscreenPass.framebuffers'' 1 ''framebuffer'',
        [HandleAt ''offscreenPass.framebuffers'' 1 ''color.view'',
         HandleAt ''offscreenPass.framebuffers'' 1 ''depth.view''])]"
    and "res_renderPasses (bloom_resources s) =
           [(Handle ''offscreenPass.renderPass'', bloom_renderPassInfo fmt)]"
    and "res_writes (bloom_resources s) = descriptorWrites s"
  using assms
  by (simp_all add: bloom_ready_def bloom_resources_def bloom_offscreenPass_of_def Let_def)

lemma bloom_ready_offscreen:
  assumes "bloom_ready fmt s"
  shows "bo_renderPass (bloom_offscreenPass s) = Handle ''offscreenPass.renderPass''"
    and "framebuffer (bo_framebuffers0 (bloom_offscreenPass s))
           = HandleAt ''offscreenPass.framebuffers'' 0 ''framebuffer''"
    and "framebuffer (bo_framebuffers1 (bloom_offscreenPass s))
           = HandleAt ''offscreenPass.framebuffers'' 1 ''framebuffer''"
  using assms
  by (simp_all add: bloom_ready_def bloom_offscreenPass_of_def Let_def)

lemma bloom_ready_sampled:
  assumes "bloom_ready fmt s"
  shows "sampled_images (descriptorWrites s) (Handle ''descriptorSets.blurVert'')
           = [\<lparr>sampler = Handle ''offscreenPass.sampler'',
               imageView = HandleAt ''offscreenPass.framebuffers'' 0 ''color.view'',
               imageLayout = VK_IMAGE_LAYOUT_SHADER_READ_ONLY_OPTIMAL\<rparr>]"
    and "sampled_images (descriptorWrites s) (Handle ''descriptorSets.blurHorz'')
           = [\<lparr>sampler = Handle ''offscreenPass.sampler'',
               imageView = HandleAt ''offscreenPass.framebuffers'' 1 ''color.view'',
               imageLayout = VK_IMAGE_LAYOUT_SHADER_READ_ONLY_OPTIMAL\<rparr>]"
    and "sampled_images (descriptorWrites s) (Handle ''descriptorSets.scene'') = []"
    and "sampled_images (descriptorWrites s) (Handle ''descriptorSets.skyBox'')
           = [\<lparr>sampler = Handle ''textures.cubemap.sampler'',
               imageView = Handle ''textures.cubemap.view'',
               imageLayout = cubemap_imageLayout s\<rparr>]"
  using assms
  by (simp_all add: bloom_ready_def bloom_offscreenPass_of_def Let_def)

lemma bloom_valid:
  assumes "bloom_ready fmt s"
  shows "topologically_valid (bloom_resources s) (passes (bloom_commands s i))"
proof (cases "bloom s")
  case True
  show ?thesis
    unfolding topologically_valid_scan bloom_passes_on[OF True]
    by (simp add: pass_reads_def pass_writes_def views_of_def render_target_views_def
        bloom_ready_targets[OF assms] bloom_ready_offscreen[OF assms]
        bloom_ready_sampled[OF assms])
next
  case False
  show ?thesis
    unfolding topologically_valid_scan bloom_passes_off[OF False]
    by (simp add: pass_reads_def pass_writes_def views_of_def render_target_views_def
        bloom_ready_targets[OF assms] bloom_ready_offscreen[OF assms]
        bloom_ready_sampled[OF assms])
qed

lemma record_command_buffers_ok:
  assumes "\<forall>i < length (drawCmdBuffers s). record_buffer d body i = Inr (f i)"
  shows "record_command_buffers d body s
           = Inr (s\<lparr>drawCmdBuffers := map f [0..<length (drawCmdBuffers s)]\<rparr>)"
  using assms
  by (auto simp: record_command_buffers_Inr
      intro!: exI[of _ "map f [0..<length (drawCmdBuffers s)]"])

lemma bloom_build_Inr:
  "bloom_buildCommandBuffers d s = Inr s' \<Longrightarrow>
     s' = s\<lparr>drawCmdBuffers := map (bloom_commands s) [0..<length (drawCmdBuffers s)]\<rparr>"
  by (auto simp: bloom_buildCommandBuffers_def record_command_buffers_Inr record_buffer_Inr
      intro!: arg_cong[where f="\<lambda>x. s\<lparr>drawCmdBuffers := x\<rparr>"] nth_equalityI)

lemma shadow_build_Inr:
  "shadow_buildCommandBuffers d s = Inr s' \<Longrightarrow>
     s' = s\<lparr>drawCmdBuffers := map (\<lambda>i. projr (shadow_commands s i)) [0..<length (drawCmdBuffers s)]\<rparr>
     \<and> (\<forall>i < length (drawCmdBuffers s). shadow_commands s i = Inr (drawCmdBuffers s' ! i))"
  by (auto simp: shadow_buildCommandBuffers_def record_command_buffers_Inr record_buffer_Inr
      intro!: arg_cong[where f="\<lambda>x. s\<lparr>drawCmdBuffers := x\<rparr>"] nth_equalityI)

lemma bloom_after_build [simp]:
  "bloom_commands (s\<lparr>drawCmdBuffers := x\<rparr>) i = bloom_commands s i"
  "bloom_resources (s\<lparr>drawCmdBuffers := x\<rparr>) = bloom_resources s"
  "bloom_ready fmt (s\<lparr>drawCmdBuffers := x\<rparr>) = bloom_ready fmt s"
  by (simp_all add: bloom_commands_def bloom_offscreen_commands_def bloom_scene_commands_def
      bloom_resources_def bloom_ready_def)

lemma shadow_after_build [simp]:
  "shadow_commands (s\<lparr>drawCmdBuffers := x\<rparr>) i = shadow_commands s i"
  "shadow_resources (s\<lparr>drawCmdBuffers := x\<rparr>) = shadow_resources s"
  "shadow_ready (s\<lparr>drawCmdBuffers := x\<rparr>) = shadow_ready s"
  by (simp_all add: shadow_commands_def shadow_offscreen_commands_def shadow_scene_commands_def
      shadow_quad_commands_def shadow_resources_def shadow_ready_def)

lemma shadow_passes:
  "shadow_commands s i = Inr cs \<Longrightarrow> passes cs =
     [\<lparr>p_renderPass = so_renderPass (shadow_offscreenPass s),
       p_framebuffer = so_frameBuffer (shadow_offscreenPass s),
       p_sets = [Handle ''descriptorSets.offscreen'']\<rparr>,
      \<lparr>p_renderPass = Handle ''renderPass'',
       p_framebuffer = HandleAt ''frameBuffers'' i [],
       p_sets = (if displayShadowMap s then [Handle ''descriptorSet''] else [])
                @ [Handle ''descriptorSets.scene'']\<rparr>]"
  by (auto simp add: passes_def shadow_commands_def shadow_offscreen_commands_def
      shadow_scene_commands_def shadow_quad_commands_def use_set_def Let_def split: if_splits)

lemma shadow_ready_resources:
  assumes "shadow_ready s"
  shows "res_targets (shadow_resources s) =
     [(Handle ''offscreenPass.frameBuffer'', [Handle ''offscreenPass.depth.view''])]"
    and "res_renderPasses (shadow_resources s) =
           [(Handle ''offscreenPass.renderPass'', shadow_renderPassInfo)]"
    and "res_writes (shadow_resources s) = descriptorWrites s"
    and "so_renderPass (shadow_offscreenPass s) = Handle ''offscreenPass.renderPass''"
    and "so_frameBuffer (shadow_offscreenPass s) = Handle ''offscreenPass.frameBuffer''"
  using assms
  by (simp_all add: shadow_ready_def shadow_resources_def shadow_offscreenPass_of_def Let_def)

lemma shadow_ready_sampled:
  assumes "shadow_ready s"
  shows "sampled_images (descriptorWrites s) (Handle ''descriptorSet'')
           = [\<lparr>sampler = Handle ''offscreenPass.depthSampler'',
               imageView = Handle ''offscreenPass.depth.view'',
               imageLayout = VK_IMAGE_LAYOUT_DEPTH_STENCIL_READ_ONLY_OPTIMAL\<rparr>]"
    and "sampled_images (descriptorWrites s) (Handle ''descriptorSets.offscreen'') = []"
    and "sampled_images (descriptorWrites s) (Handle ''descriptorSets.scene'')
           = [\<lparr>sampler = Handle ''offscreenPass.depthSampler'',
               imageView = Handle ''offscreenPass.depth.view'',
               imageLayout = VK_IMAGE_LAYOUT_DEPTH_STENCIL_READ_ONLY_OPTIMAL\<rparr>]"
  using assms
  by (simp_all add: shadow_ready_def shadow_offscreenPass_of_def shadow_texDescriptor_def)

lemma shadow_valid:
  assumes "shadow_ready s" and "shadow_commands s i = Inr cs"
  shows "topologically_valid (shadow_resources s) (passes cs)"
  unfolding topologically_valid_scan shadow_passes[OF assms(2)]
  by (simp add: pass_reads_def pass_writes_def views_of_def render_target_views_def
      shadow_ready_resources[OF assms(1)] shadow_ready_sampled[OF assms(1)])

lemma bloom_set_up_ready: "bloom_ready VK_FORMAT_D32_SFLOAT_S8_UINT bloom_set_up"
  by (simp add: bloom_ready_def bloom_set_up_def bloom_start_def sampled_images_def
      image_of_def bloom_writes_blurVert_def bloom_writes_blurHorz_def bloom_writes_scene_def
      bloom_writes_skyBox_def bloom_offscreenPass_of_def Let_def)

lemma bloom_set_up_build:
  "bloom_buildCommandBuffers device_ok bloom_set_up = Inr bloom_recorded"
proof -
  have "length (drawCmdBuffers bloom_set_up) = 3"
    by (simp add: bloom_set_up_def bloom_start_def)
  then show ?thesis
    unfolding bloom_buildCommandBuffers_def bloom_recorded_def
    by (subst record_command_buffers_ok[where f="bloom_commands bloom_set_up"])
       (simp_all add: record_buffer_def device_ok_def)
qed

lemma shadow_set_up_ready: "shadow_ready shadow_set_up"
  by (simp add: shadow_ready_def shadow_set_up_def shadow_start_def sampled_images_def
      image_of_def shadow_writes_quad_def shadow_writes_offscreen_def shadow_writes_scene_def
      shadow_offscreenPass_of_def shadow_texDescriptor_def Let_def)

lemma shadow_set_up_build:
  "shadow_buildCommandBuffers device_ok shadow_set_up = Inr shadow_recorded"
proof -
  have len: "length (drawCmdBuffers shadow_set_up) = 3"
    by (simp add: shadow_set_up_def shadow_start_def)
  have ok: "\<forall>i < length (drawCmdBuffers shadow_set_up).
      record_buffer device_ok (shadow_commands shadow_set_up) i
        = Inr (projr (shadow_commands shadow_set_up i))"
    by (simp add: record_buffer_def device_ok_def shadow_commands_def shadow_set_up_def
        shadow_start_def Let_def)
  show ?thesis
    using record_command_buffers_ok[OF ok] len
    by (simp add: shadow_buildCommandBuffers_def shadow_recorded_def)
qed

text \<open>
  Claim C1. Every command buffer that \<open>buildCommandBuffers\<close> records, in the bloom example
  (glow pass, vertical blur, scene pass) and in the shadow-mapping example (depth pass,
  scene pass), is topologically valid: a pass that reads a render target comes after a
  pass of the same command buffer that writes it, and no pass reads what it writes.
  This holds for every value of the toggles, the scene index and the buffer index.
\<close>

theorem recorded_frames_topologically_valid:
  fixes sb sb' :: "'a bloom_state" and ss ss' :: "'b shadow_state"
  shows "(bloom_ready fmt sb \<and> bloom_buildCommandBuffers d sb = Inr sb'
            \<longrightarrow> (\<forall>cb \<in> set (drawCmdBuffers sb').
                   topologically_valid (bloom_resources sb') (passes cb)))
       \<and> (shadow_ready ss \<and> shadow_buildCommandBuffers d ss = Inr ss'
            \<longrightarrow> (\<forall>cb \<in> set (drawCmdBuffers ss').
                   topologically_valid (shadow_resources ss') (passes cb)))"
proof (intro conjI impI ballI)
  fix cb
  assume a: "bloom_ready fmt sb \<and> bloom_buildCommandBuffers d sb = Inr sb'"
    and cb: "cb \<in> set (drawCmdBuffers sb')"
  from a have sb': "sb' = sb\<lparr>drawCmdBuffers := map (bloom_commands sb) [0..<length (drawCmdBuffers sb)]\<rparr>"
    by (auto dest: bloom_build_Inr)
  with cb obtain i where "cb = bloom_commands sb i" by auto
  with a sb' show "topologically_valid (bloom_resources sb') (passes cb)"
    using bloom_valid[of fmt sb i] by simp
next
  fix cb
  assume a: "shadow_ready ss \<and> shadow_buildCommandBuffers d ss = Inr ss'"
    and cb: "cb \<in> set (drawCmdBuffers ss')"
  from a have ss': "ss' = ss\<lparr>drawCmdBuffers := drawCmdBuffers ss'\<rparr>"
    and len: "length (drawCmdBuffers ss') = length (drawCmdBuffers ss)"
    and rec: "\<forall>i < length (drawCmdBuffers ss). shadow_commands ss i = Inr (drawCmdBuffers ss' ! i)"
    by (auto simp: shadow_buildCommandBuffers_def record_command_buffers_Inr record_buffer_Inr)
  from cb obtain i where i: "i < length (drawCmdBuffers ss')" "cb = drawCmdBuffers ss' ! i"
    by (auto simp: in_set_conv_nth)
  with rec len have "shadow_commands ss i = Inr cb" by simp
  with a have "topologically_valid (shadow_resources ss) (passes cb)"
    by (simp add: shadow_valid)
  then show "topologically_valid (shadow_resources ss') (passes cb)"
    by (subst ss') simp
qed

theorem recorded_frames_topologically_valid_witness:
  "bloom_ready VK_FORMAT_D32_SFLOAT_S8_UINT bloom_set_up
   \<and> bloom_buildCommandBuffers device_ok bloom_set_up = Inr bloom_recorded
   \<and> topologically_valid (bloom_resources bloom_recorded) (passes (drawCmdBuffers bloom_recorded ! 0))
   \<and> shadow_ready shadow_set_up
   \<and> shadow_buildCommandBuffers device_ok shadow_set_up = Inr shadow_recorded
   \<and> topologically_valid (shadow_resources shadow_recorded) (passes (drawCmdBuffers shadow_recorded ! 0))"
proof -
  have b: "drawCmdBuffers bloom_recorded ! 0 \<in> set (drawCmdBuffers bloom_recorded)"
    by (simp add: bloom_recorded_def)
  have s: "drawCmdBuffers shadow_recorded ! 0 \<in> set (drawCmdBuffers shadow_recorded)"
    by (simp add: shadow_recorded_def)
  show ?thesis
    using recorded_frames_topologically_valid [of VK_FORMAT_D32_SFLOAT_S8_UINT bloom_set_up
        device_ok bloom_recorded shadow_set_up shadow_recorded]
      bloom_set_up_ready bloom_set_up_build shadow_set_up_ready shadow_set_up_build b s
    by blast
qed

section \<open>What set-up leaves\<close>

lemma effective_filter:
  "filter (\<lambda>w. dstSet w = d) (effective ws) = effective (filter (\<lambda>w. dstSet w = d) ws)"
proof (induction ws)
  case Nil
  then show ?case by simp
next
  case (Cons w ws)
  have "dstSet w = d \<Longrightarrow>
      list_ex (\<lambda>w'. dstSet w' = dstSet w \<and> dstBinding w' = dstBinding w)
        (filter (\<lambda>w. dstSet w = d) ws)
      = list_ex (\<lambda>w'. dstSet w' = dstSet w \<and> dstBinding w' = dstBinding w) ws"
    by (auto simp: list_ex_iff)
  with Cons show ?case by simp
qed

lemma image_of_other: "dstSet w \<noteq> d \<Longrightarrow> image_of d w = []"
  by (simp add: image_of_def split: descriptor_info.splits)

lemma concat_image_of_filter:
  "concat (map (image_of d) (filter (\<lambda>w. dstSet w = d) ws)) = concat (map (image_of d) ws)"
  by (induction ws) (simp_all add: image_of_other)

lemma sampled_images_filter:
  "sampled_images ws d = sampled_images (filter (\<lambda>w. dstSet w = d) ws) d"
  unfolding sampled_images_def
  by (simp add: effective_filter[symmetric] concat_image_of_filter)

lemma filter_allocate:
  "filter (\<lambda>w. dstSet w = d) (allocateDescriptorSet h ws)
     = (if h = d then [] else filter (\<lambda>w. dstSet w = d) ws)"
  by (induction ws) (auto simp: allocateDescriptorSet_def)

lemma filter_update:
  "filter P (vkUpdateDescriptorSets new ws) = filter P ws @ filter P new"
  by (simp add: vkUpdateDescriptorSets_def)

lemma bloom_prepareOffscreenFramebuffer_Inr:
  assumes "bloom_prepareOffscreenFramebuffer d op k cf df = Inr f"
  shows "f = \<lparr>framebuffer = HandleAt ''offscreenPass.framebuffers'' k ''framebuffer'',
             color = \<lparr>image = HandleAt ''offscreenPass.framebuffers'' k ''color.image'',
                      mem = HandleAt ''offscreenPass.framebuffers'' k ''color.mem'',
                      view = HandleAt ''offscreenPass.framebuffers'' k ''color.view'',
                      image_format = cf,
                      image_usage = {VK_IMAGE_USAGE_COLOR_ATTACHMENT_BIT,
                                     VK_IMAGE_USAGE_SAMPLED_BIT}\<rparr>,
             depth = \<lparr>image = HandleAt ''offscreenPass.framebuffers'' k ''depth.image'',
                      mem = HandleAt ''offscreenPass.framebuffers'' k ''depth.mem'',
                      view = HandleAt ''offscreenPass.framebuffers'' k ''depth.view'',
                      image_format = df,
                      image_usage = {VK_IMAGE_USAGE_DEPTH_STENCIL_ATTACHMENT_BIT}\<rparr>,
             descriptor = \<lparr>sampler = bo_sampler op,
                           imageView = HandleAt ''offscreenPass.framebuffers'' k ''color.view'',
                           imageLayout = VK_IMAGE_LAYOUT_SHADER_READ_ONLY_OPTIMAL\<rparr>,
             fb_renderPass = bo_renderPass op,
             fb_attachments = [HandleAt ''offscreenPass.framebuffers'' k ''color.view'',
                               HandleAt ''offscreenPass.framebuffers'' k ''depth.view'']\<rparr>"
  using assms
  by (simp add: bloom_prepareOffscreenFramebuffer_def Let_def check_Inr_iff)

lemma bloom_prepareOffscreen_Inr:
  assumes "bloom_prepareOffscreen d s = Inr s1"
  shows "\<exists>fmt. supportedDepthFormat d = Some fmt
           \<and> s1 = s\<lparr>bloom_offscreenPass := bloom_offscreenPass_of fmt\<rparr>"
proof -
  from assms obtain fmt where fmt: "supportedDepthFormat d = Some fmt"
    by (auto simp: bloom_prepareOffscreen_def split: option.splits)
  let ?op = "(bloom_offscreenPass s)
                  \<lparr>bo_width := FB_DIM, bo_height := FB_DIM,
                   bo_renderPass := Handle ''offscreenPass.renderPass'',
                   bo_renderPassInfo := bloom_renderPassInfo fmt,
                   bo_sampler := Handle ''offscreenPass.sampler''\<rparr>"
  from assms fmt obtain f0 f1 where
    f0: "bloom_prepareOffscreenFramebuffer d ?op 0 FB_COLOR_FORMAT fmt = Inr f0"
    and f1: "bloom_prepareOffscreenFramebuffer d ?op 1 FB_COLOR_FORMAT fmt = Inr f1"
    and s1: "s1 = s\<lparr>bloom_offscreenPass := ?op\<lparr>bo_framebuffers0 := f0, bo_framebuffers1 := f1\<rparr>\<rparr>"
    by (auto simp: bloom_prepareOffscreen_def Let_def check_Inr_iff and_then_Inr_iff)
  have "?op\<lparr>bo_framebuffers0 := f0, bo_framebuffers1 := f1\<rparr> = bloom_offscreenPass_of fmt"
    unfolding bloom_prepareOffscreenFramebuffer_Inr[OF f0] bloom_prepareOffscreenFramebuffer_Inr[OF f1]
    by (cases "bloom_offscreenPass s") (simp add: bloom_offscreenPass_of_def Let_def)
  with s1 fmt show ?thesis by simp
qed

lemma bloom_setupDescriptorSet_Inr:
  assumes "bloom_setupDescriptorSet d s = Inr s2"
  shows "s2 = s\<lparr>descriptorWrites := descriptorWrites s2\<rparr>"
    and "filter (\<lambda>w. dstSet w = Handle ''descriptorSets.blurVert'') (descriptorWrites s2)
          = bloom_writes_blurVert (bloom_offscreenPass s)"
    and "filter (\<lambda>w. dstSet w = Handle ''descriptorSets.blurHorz'') (descriptorWrites s2)
          = bloom_writes_blurHorz (bloom_offscreenPass s)"
    and "filter (\<lambda>w. dstSet w = Handle ''descriptorSets.scene'') (descriptorWrites s2)
          = bloom_writes_scene"
    and "filter (\<lambda>w. dstSet w = Handle ''descriptorSets.skyBox'') (descriptorWrites s2)
          = bloom_writes_skyBox (cubemap_imageLayout s)"
  using assms
  by (auto simp: bloom_setupDescriptorSet_def Let_def check_Inr_iff filter_allocate filter_update
      bloom_writes_blurVert_def bloom_writes_blurHorz_def bloom_writes_scene_def
      bloom_writes_skyBox_def)

lemma bloom_set_up_by_ready:
  assumes "bloom_set_up_by d s0 s"
  shows "\<exists>fmt. supportedDepthFormat d = Some fmt \<and> bloom_ready fmt s"
proof -
  from assms obtain s1 s2 where 1: "bloom_prepareOffscreen d s0 = Inr s1"
    and 2: "bloom_setupDescriptorSet d s1 = Inr s2"
    and eq: "bloom_offscreenPass s = bloom_offscreenPass s2"
      "descriptorWrites s = descriptorWrites s2" "cubemap_imageLayout s = cubemap_imageLayout s2"
    by (auto simp: bloom_set_up_by_def and_then_Inr_iff split: sum.splits)
  from bloom_prepareOffscreen_Inr[OF 1] obtain fmt where fmt: "supportedDepthFormat d = Some fmt"
    and s1: "s1 = s0\<lparr>bloom_offscreenPass := bloom_offscreenPass_of fmt\<rparr>" by blast
  define ws where "ws = descriptorWrites s2"
  have s2: "s2 = s1\<lparr>descriptorWrites := ws\<rparr>"
    unfolding ws_def by (rule bloom_setupDescriptorSet_Inr(1)[OF 2])
  have f: "filter (\<lambda>w. dstSet w = Handle ''descriptorSets.blurVert'') ws
          = bloom_writes_blurVert (bloom_offscreenPass s1)"
     "filter (\<lambda>w. dstSet w = Handle ''descriptorSets.blurHorz'') ws
          = bloom_writes_blurHorz (bloom_offscreenPass s1)"
     "filter (\<lambda>w. dstSet w = Handle ''descriptorSets.scene'') ws = bloom_writes_scene"
     "filter (\<lambda>w. dstSet w = Handle ''descriptorSets.skyBox'') ws
          = bloom_writes_skyBox (cubemap_imageLayout s1)"
    unfolding ws_def by (rule bloom_setupDescriptorSet_Inr(2-)[OF 2])+
  have op: "bloom_offscreenPass s = bloom_offscreenPass_of fmt"
    using eq(1) by (simp add: s2 s1)
  have ws: "descriptorWrites s = ws" using eq(2) by (simp add: s2)
  have cl: "cubemap_imageLayout s1 = cubemap_imageLayout s" using eq(3) by (simp add: s2)
  have op1: "bloom_offscreenPass s1 = bloom_offscreenPass_of fmt" by (simp add: s1)
  have "bloom_ready fmt s"
    unfolding bloom_ready_def ws op
    apply (intro conjI)
        apply (rule refl)
       apply (subst sampled_images_filter, subst f(1))
       apply (simp add: op1 sampled_images_def image_of_def bloom_writes_blurVert_def)
      apply (subst sampled_images_filter, subst f(2))
      apply (simp add: op1 sampled_images_def image_of_def bloom_writes_blurHorz_def)
     apply (subst sampled_images_filter, subst f(3))
     apply (simp add: sampled_images_def image_of_def bloom_writes_scene_def)
    apply (subst sampled_images_filter, subst f(4))
    apply (simp add: cl sampled_images_def image_of_def bloom_writes_skyBox_def)
    done
  with fmt show ?thesis by blast
qed

lemma shadow_prepareOffscreenFramebuffer_Inr:
  assumes "shadow_prepareOffscreenFramebuffer d s = Inr s1"
  shows "s1 = s\<lparr>shadow_offscreenPass := shadow_offscreenPass_of\<rparr>"
proof -
  from assms have "s1 = s\<lparr>shadow_offscreenPass :=
       (shadow_offscreenPass s)
             \<lparr>so_width := SHADOWMAP_DIM, so_height := SHADOWMAP_DIM,
              so_depth := \<lparr>image = Handle ''offscreenPass.depth.image'',
                            mem = Handle ''offscreenPass.depth.mem'',
                            view = Handle ''offscreenPass.depth.view'',
                            image_format = DEPTH_FORMAT,
                            image_usage = {VK_IMAGE_USAGE_DEPTH_STENCIL_ATTACHMENT_BIT,
                                           VK_IMAGE_USAGE_SAMPLED_BIT}\<rparr>,
              so_depthSampler := Handle ''offscreenPass.depthSampler'',
              so_renderPass := Handle ''offscreenPass.renderPass'',
              so_renderPassInfo := shadow_renderPassInfo,
              so_frameBuffer := Handle ''offscreenPass.frameBuffer'',
              so_attachments := [Handle ''offscreenPass.depth.view'']\<rparr>\<rparr>"
    by (auto simp: shadow_prepareOffscreenFramebuffer_def shadow_prepareOffscreenRenderpass_def
        Let_def check_Inr_iff and_then_Inr_iff)
  moreover have "(shadow_offscreenPass s)
             \<lparr>so_width := SHADOWMAP_DIM, so_height := SHADOWMAP_DIM,
              so_depth := \<lparr>image = Handle ''offscreenPass.depth.image'',
                            mem = Handle ''offscreenPass.depth.mem'',
                            view = Handle ''offscreenPass.depth.view'',
                            image_format = DEPTH_FORMAT,
                            image_usage = {VK_IMAGE_USAGE_DEPTH_STENCIL_ATTACHMENT_BIT,
                                           VK_IMAGE_USAGE_SAMPLED_BIT}\<rparr>,
              so_depthSampler := Handle ''offscreenPass.depthSampler'',
              so_renderPass := Handle ''offscreenPass.renderPass'',
              so_renderPassInfo := shadow_renderPassInfo,
              so_frameBuffer := Handle ''offscreenPass.frameBuffer'',
              so_attachments := [Handle ''offscreenPass.depth.view'']\<rparr> = shadow_offscreenPass_of"
    by (cases "shadow_offscreenPass s") (simp add: shadow_offscreenPass_of_def)
  ultimately show ?thesis by simp
qed

lemma shadow_setupDescriptorSets_Inr:
  assumes "shadow_setupDescriptorSets d s = Inr s2"
  shows "s2 = s\<lparr>descriptorWrites := descriptorWrites s2\<rparr>"
    and "filter (\<lambda>w. dstSet w = Handle ''descriptorSet'') (descriptorWrites s2)
          = shadow_writes_quad (shadow_offscreenPass s)"
    and "filter (\<lambda>w. dstSet w = Handle ''descriptorSets.offscreen'') (descriptorWrites s2)
          = shadow_writes_offscreen"
    and "filter (\<lambda>w. dstSet w = Handle ''descriptorSets.scene'') (descriptorWrites s2)
          = shadow_writes_scene (shadow_offscreenPass s)"
  using assms
  by (auto simp: shadow_setupDescriptorSets_def Let_def check_Inr_iff filter_allocate filter_update
      shadow_writes_quad_def shadow_writes_offscreen_def shadow_writes_scene_def)

lemma shadow_set_up_by_ready:
  assumes "shadow_set_up_by d s0 s"
  shows "shadow_ready s"
proof -
  from assms obtain s1 s2 where 1: "shadow_prepareOffscreenFramebuffer d s0 = Inr s1"
    and 2: "shadow_setupDescriptorSets d s1 = Inr s2"
    and eq: "shadow_offscreenPass s = shadow_offscreenPass s2"
      "descriptorWrites s = descriptorWrites s2"
    by (auto simp: shadow_set_up_by_def and_then_Inr_iff split: sum.splits)
  note s1 = shadow_prepareOffscreenFramebuffer_Inr[OF 1]
  define ws where "ws = descriptorWrites s2"
  have s2: "s2 = s1\<lparr>descriptorWrites := ws\<rparr>"
    unfolding ws_def by (rule shadow_setupDescriptorSets_Inr(1)[OF 2])
  have f: "filter (\<lambda>w. dstSet w = Handle ''descriptorSet'') ws
          = shadow_writes_quad (shadow_offscreenPass s1)"
     "filter (\<lambda>w. dstSet w = Handle ''descriptorSets.offscreen'') ws = shadow_writes_offscreen"
     "filter (\<lambda>w. dstSet w = Handle ''descriptorSets.scene'') ws
          = shadow_writes_scene (shadow_offscreenPass s1)"
    unfolding ws_def by (rule shadow_setupDescriptorSets_Inr(2-)[OF 2])+
  have op: "shadow_offscreenPass s = shadow_offscreenPass_of"
    using eq(1) by (simp add: s2 s1)
  have ws: "descriptorWrites s = ws" using eq(2) by (simp add: s2)
  have op1: "shadow_offscreenPass s1 = shadow_offscreenPass_of" by (simp add: s1)
  show "shadow_ready s"
    unfolding shadow_ready_def ws op
    apply (intro conjI)
       apply (rule refl)
      apply (subst sampled_images_filter, subst f(1))
      apply (simp add: op1 sampled_images_def image_of_def shadow_writes_quad_def)
     apply (subst sampled_images_filter, subst f(2))
     apply (simp add: sampled_images_def image_of_def shadow_writes_offscreen_def)
    apply (subst sampled_images_filter, subst f(3))
    apply (simp add: op1 sampled_images_def image_of_def shadow_writes_scene_def
        shadow_texDescriptor_def)
    done
qed

text \<open>The members that set-up writes are left alone by everything that runs later.\<close>

lemma bloom_set_up_by_cong:
  assumes "bloom_set_up_by d s0 s"
    and "bloom_offscreenPass t = bloom_offscreenPass s"
    and "descriptorWrites t = descriptorWrites s"
    and "cubemap_imageLayout t = cubemap_imageLayout s"
  shows "bloom_set_up_by d s0 t"
  using assms by (auto simp: bloom_set_up_by_def split: sum.splits)

lemma shadow_set_up_by_cong:
  assumes "shadow_set_up_by d s0 s"
    and "shadow_offscreenPass t = shadow_offscreenPass s"
    and "descriptorWrites t = descriptorWrites s"
  shows "shadow_set_up_by d s0 t"
  using assms by (auto simp: shadow_set_up_by_def split: sum.splits)

lemma bloom_start_set_up:
  "and_then (bloom_prepareOffscreen device_ok bloom_start) (bloom_setupDescriptorSet device_ok)
     = Inr bloom_set_up"
  by (simp add: bloom_prepareOffscreen_def bloom_prepareOffscreenFramebuffer_def
      bloom_setupDescriptorSet_def device_ok_def bloom_start_def bloom_set_up_def Let_def
      bloom_offscreenPass_of_def allocateDescriptorSet_def vkUpdateDescriptorSets_def
      null_FrameBuffer_def null_attachment_def null_renderPassInfo_def
      bloom_writes_blurVert_def bloom_writes_blurHorz_def bloom_writes_scene_def
      bloom_writes_skyBox_def)

lemma shadow_start_set_up:
  "and_then (shadow_prepareOffscreenFramebuffer device_ok shadow_start)
      (shadow_setupDescriptorSets device_ok) = Inr shadow_set_up"
  by (simp add: shadow_prepareOffscreenFramebuffer_def shadow_prepareOffscreenRenderpass_def
      shadow_setupDescriptorSets_def device_ok_def shadow_start_def shadow_set_up_def Let_def
      shadow_offscreenPass_of_def allocateDescriptorSet_def vkUpdateDescriptorSets_def
      null_attachment_def null_renderPassInfo_def
      shadow_writes_quad_def shadow_writes_offscreen_def shadow_writes_scene_def
      shadow_texDescriptor_def)

lemma bloom_set_up_by_start:
  "bloom_set_up_by device_ok bloom_start bloom_set_up"
  "bloom_set_up_by device_ok bloom_start bloom_recorded"
  "bloom_set_up_by device_ok bloom_start bloom_running"
  "bloom_set_up_by device_ok bloom_start bloom_running_off"
  by (simp_all add: bloom_set_up_by_def bloom_start_set_up bloom_recorded_def bloom_running_def
      bloom_running_off_def)

lemma shadow_set_up_by_start:
  "shadow_set_up_by device_ok shadow_start shadow_set_up"
  "shadow_set_up_by device_ok shadow_start shadow_recorded"
  "shadow_set_up_by device_ok shadow_start shadow_running"
  "shadow_set_up_by device_ok shadow_start shadow_running_display"
  by (simp_all add: shadow_set_up_by_def shadow_start_set_up shadow_recorded_def
      shadow_running_def shadow_running_display_def)

section \<open>Exclusive writers\<close>

lemma bloom_recorded_all:
  assumes "bloom_buildCommandBuffers d s = Inr s'"
    and "\<And>i. P (bloom_resources s) (bloom_commands s i)"
  shows "\<forall>cb \<in> set (drawCmdBuffers s'). P (bloom_resources s') cb"
proof
  fix cb assume cb: "cb \<in> set (drawCmdBuffers s')"
  from assms(1) have s': "s' = s\<lparr>drawCmdBuffers := map (bloom_commands s) [0..<length (drawCmdBuffers s)]\<rparr>"
    by (rule bloom_build_Inr)
  with cb obtain i where "cb = bloom_commands s i" by auto
  with assms(2)[of i] s' show "P (bloom_resources s') cb" by simp
qed

lemma shadow_recorded_all:
  assumes "shadow_buildCommandBuffers d s = Inr s'"
    and "\<And>i cs. shadow_commands s i = Inr cs \<Longrightarrow> P (shadow_resources s) cs"
  shows "\<forall>cb \<in> set (drawCmdBuffers s'). P (shadow_resources s') cb"
proof
  fix cb assume cb: "cb \<in> set (drawCmdBuffers s')"
  from assms(1) have s': "s' = s\<lparr>drawCmdBuffers := drawCmdBuffers s'\<rparr>"
    and len: "length (drawCmdBuffers s') = length (drawCmdBuffers s)"
    and rec: "\<forall>i < length (drawCmdBuffers s). shadow_commands s i = Inr (drawCmdBuffers s' ! i)"
    by (auto simp: shadow_buildCommandBuffers_def record_command_buffers_Inr record_buffer_Inr)
  from cb obtain i where i: "i < length (drawCmdBuffers s')" "cb = drawCmdBuffers s' ! i"
    by (auto simp: in_set_conv_nth)
  with rec len have "shadow_commands s i = Inr cb" by simp
  then have "P (shadow_resources s) cb" by (rule assms(2))
  then show "P (shadow_resources s') cb"
    by (subst s') simp
qed

lemma recorded_nth_in_set:
  "drawCmdBuffers bloom_recorded ! 0 \<in> set (drawCmdBuffers bloom_recorded)"
  "drawCmdBuffers shadow_recorded ! 0 \<in> set (drawCmdBuffers shadow_recorded)"
  by (simp_all add: bloom_recorded_def shadow_recorded_def)

lemma bloom_ready_views:
  assumes "bloom_ready fmt s"
  shows "render_target_views (bloom_resources s) =
     [HandleAt ''offscreenPass.framebuffers'' 0 ''color.view'',
      HandleAt ''offscreenPass.framebuffers'' 0 ''depth.view'',
      HandleAt ''offscreenPass.framebuffers'' 1 ''color.view'',
      HandleAt ''offscreenPass.framebuffers'' 1 ''depth.view'']"
  by (simp add: render_target_views_def bloom_ready_targets[OF assms])

lemma shadow_ready_views:
  assumes "shadow_ready s"
  shows "render_target_views (shadow_resources s) = [Handle ''offscreenPass.depth.view'']"
  by (simp add: render_target_views_def shadow_ready_resources[OF assms])

lemma bloom_on_exclusive:
  assumes "bloom_ready fmt s" and "bloom s"
  shows "exclusively_written (bloom_resources s) (passes (bloom_commands s i))"
  unfolding exclusively_written_def reads_follow_writes_def writers_def
    bloom_passes_on[OF assms(2)]
  by (simp add: pass_reads_def pass_writes_def views_of_def render_target_views_def
      bloom_ready_targets[OF assms(1)] bloom_ready_offscreen[OF assms(1)]
      bloom_ready_sampled[OF assms(1)] All_less_Suc2 Ex_less_Suc2)

lemma bloom_off_untouched:
  assumes "bloom_ready fmt s" and "\<not> bloom s"
  shows "untouched (bloom_resources s) (passes (bloom_commands s i))"
  unfolding untouched_def bloom_passes_off[OF assms(2)]
  by (simp add: pass_reads_def pass_writes_def views_of_def render_target_views_def
        bloom_ready_targets[OF assms(1)] bloom_ready_sampled[OF assms(1)])

lemma untouched_at_most_once:
  assumes "untouched R ps"
  shows "written_at_most_once R ps"
proof -
  from assms have *: "\<And>p. p \<in> set ps \<Longrightarrow> pass_writes R p = [] \<and> pass_reads R p = []"
    by (simp add: untouched_def list_all_iff)
  then have "writers R ps v = []" for v
    by (auto simp: writers_def filter_empty_conv)
  moreover have "reads_follow_writes R ps"
    using * by (auto simp: reads_follow_writes_def)
  ultimately show ?thesis by (simp add: written_at_most_once_def)
qed

lemma exclusive_at_most_once:
  "exclusively_written R ps \<Longrightarrow> written_at_most_once R ps"
  by (simp add: exclusively_written_def written_at_most_once_def)

lemma untouched_not_exclusive:
  assumes "untouched R ps" and "v \<in> set (render_target_views R)"
  shows "\<not> exclusively_written R ps"
proof -
  from assms(1) have "\<And>p. p \<in> set ps \<Longrightarrow> pass_writes R p = []"
    by (simp add: untouched_def list_all_iff)
  then have "writers R ps v = []"
    by (auto simp: writers_def filter_empty_conv)
  then have "length (writers R ps v) \<noteq> 1" by simp
  with assms(2) show ?thesis
    unfolding exclusively_written_def by blast
qed

lemma bloom_writers:
  assumes "bloom_ready fmt s"
  shows "written_at_most_once (bloom_resources s) (passes (bloom_commands s i))
       \<and> (if bloom s then exclusively_written (bloom_resources s) (passes (bloom_commands s i))
          else untouched (bloom_resources s) (passes (bloom_commands s i)))"
  using bloom_on_exclusive[OF assms, of i] bloom_off_untouched[OF assms, of i]
  by (auto intro: exclusive_at_most_once untouched_at_most_once)

lemma shadow_exclusive:
  assumes "shadow_ready s" and "shadow_commands s i = Inr cs"
  shows "exclusively_written (shadow_resources s) (passes cs)"
  unfolding exclusively_written_def reads_follow_writes_def writers_def
    shadow_passes[OF assms(2)]
  by (simp add: pass_reads_def pass_writes_def views_of_def render_target_views_def
      shadow_ready_resources[OF assms(1)] shadow_ready_sampled[OF assms(1)]
      All_less_Suc2 Ex_less_Suc2)

lemma bloom_build_total:
  assumes "\<forall>i < length (drawCmdBuffers s).
      vkResult d (vkBeginCommandBuffer (HandleAt ''drawCmdBuffers'' i [])) = VK_SUCCESS
      \<and> vkResult d (vkEndCommandBuffer (HandleAt ''drawCmdBuffers'' i [])) = VK_SUCCESS"
  shows "bloom_buildCommandBuffers d s
     = Inr (s\<lparr>drawCmdBuffers := map (bloom_commands s) [0..<length (drawCmdBuffers s)]\<rparr>)"
  unfolding bloom_buildCommandBuffers_def
  by (rule record_command_buffers_ok) (use assms in \<open>simp add: record_buffer_Inr\<close>)

lemma bloom_commands_off:
  "\<not> bloom s \<Longrightarrow> bloom_commands s i = bloom_scene_commands s i @ [DrawUI, CmdEndRenderPass]"
  by (simp add: bloom_commands_def)

lemma bloom_scene_commands_flag [simp]:
  "bloom_scene_commands (s\<lparr>bloom := v\<rparr>) i = bloom_scene_commands s i"
  by (simp add: bloom_scene_commands_def)

lemma bloom_running_length: "length (drawCmdBuffers bloom_running) = 3"
  by (simp add: bloom_running_def bloom_recorded_def)

lemma bloom_running_on: "bloom bloom_running" "bloom bloom_set_up"
  by (simp_all add: bloom_running_def bloom_recorded_def bloom_set_up_def bloom_start_def)

lemma bloom_running_build_off:
  "bloom_buildCommandBuffers device_ok (bloom_running\<lparr>bloom := False\<rparr>) = Inr bloom_running_off"
proof -
  have "bloom_buildCommandBuffers device_ok (bloom_running\<lparr>bloom := False\<rparr>)
      = Inr (bloom_running\<lparr>bloom := False,
          drawCmdBuffers := map (bloom_commands (bloom_running\<lparr>bloom := False\<rparr>)) [0..<3]\<rparr>)"
    by (subst bloom_build_total) (simp_all add: device_ok_def bloom_running_length)
  then show ?thesis
    by (simp add: bloom_running_off_def bloom_commands_off cong: map_cong)
qed

lemma bloom_running_toggle_off:
  "bloom_OnUpdateUIOverlay device_ok bloom_off_overlay bloom_running = Inr bloom_running_off"
  by (simp add: bloom_OnUpdateUIOverlay_def bloom_off_overlay_def bloom_running_build_off)

lemma running_nth_in_set:
  "drawCmdBuffers bloom_running_off ! 0 \<in> set (drawCmdBuffers bloom_running_off)"
  by (simp add: bloom_running_off_def)

lemma bloom_running_off_frame:
  "drawCmdBuffers bloom_running_off ! 0 = bloom_commands bloom_running_off 0"
  "\<not> bloom bloom_running_off"
  by (simp_all add: bloom_running_off_def bloom_commands_off bloom_scene_commands_def)

text \<open>
  Claim C8, as far as it holds. In every command buffer that the two examples record
  after set-up, no render target (an attachment of an offscreen framebuffer) has two
  writing passes, and a pass that reads a render target comes after a pass that writes
  it. In the shadow-mapping example, and in the bloom example while \<open>bloom\<close> is set, each
  render target has exactly one writing pass. A bloom frame recorded while \<open>bloom\<close> is
  clear has no pass that writes or reads a render target.
\<close>

theorem render_targets_written_at_most_once:
  fixes s0 s s' :: "'a bloom_state" and u0 u u' :: "'b shadow_state"
  shows "(bloom_set_up_by d0 s0 s \<and> bloom_buildCommandBuffers d s = Inr s' \<longrightarrow>
            render_target_views (bloom_resources s') =
              [HandleAt ''offscreenPass.framebuffers'' 0 ''color.view'',
               HandleAt ''offscreenPass.framebuffers'' 0 ''depth.view'',
               HandleAt ''offscreenPass.framebuffers'' 1 ''color.view'',
               HandleAt ''offscreenPass.framebuffers'' 1 ''depth.view'']
          \<and> (\<forall>cb \<in> set (drawCmdBuffers s').
                 written_at_most_once (bloom_resources s') (passes cb)
               \<and> (if bloom s then exclusively_written (bloom_resources s') (passes cb)
                  else untouched (bloom_resources s') (passes cb))))
       \<and> (shadow_set_up_by d0 u0 u \<and> shadow_buildCommandBuffers d u = Inr u' \<longrightarrow>
            render_target_views (shadow_resources u') = [Handle ''offscreenPass.depth.view'']
          \<and> (\<forall>cb \<in> set (drawCmdBuffers u').
                 exclusively_written (shadow_resources u') (passes cb)))"
proof (intro conjI impI)
  assume a: "bloom_set_up_by d0 s0 s \<and> bloom_buildCommandBuffers d s = Inr s'"
  then obtain fmt where r: "bloom_ready fmt s"
    using bloom_set_up_by_ready by blast
  from a have s': "s' = s\<lparr>drawCmdBuffers := map (bloom_commands s) [0..<length (drawCmdBuffers s)]\<rparr>"
    by (auto dest: bloom_build_Inr)
  show "render_target_views (bloom_resources s') =
              [HandleAt ''offscreenPass.framebuffers'' 0 ''color.view'',
               HandleAt ''offscreenPass.framebuffers'' 0 ''depth.view'',
               HandleAt ''offscreenPass.framebuffers'' 1 ''color.view'',
               HandleAt ''offscreenPass.framebuffers'' 1 ''depth.view'']"
    using bloom_ready_views[OF r] by (subst s') simp
  show "\<forall>cb \<in> set (drawCmdBuffers s').
                 written_at_most_once (bloom_resources s') (passes cb)
               \<and> (if bloom s then exclusively_written (bloom_resources s') (passes cb)
                  else untouched (bloom_resources s') (passes cb))"
    using bloom_recorded_all[where s=s and s'=s' and d=d and
        P="\<lambda>R cs. written_at_most_once R (passes cs)
               \<and> (if bloom s then exclusively_written R (passes cs) else untouched R (passes cs))"]
      bloom_writers[OF r] a
    by blast
next
  assume a: "shadow_set_up_by d0 u0 u \<and> shadow_buildCommandBuffers d u = Inr u'"
  then have r: "shadow_ready u"
    using shadow_set_up_by_ready by blast
  from a have u': "u' = u\<lparr>drawCmdBuffers := drawCmdBuffers u'\<rparr>"
    by (auto simp: shadow_buildCommandBuffers_def record_command_buffers_Inr)
  show "render_target_views (shadow_resources u') = [Handle ''offscreenPass.depth.view'']"
    using shadow_ready_views[OF r] by (subst u') simp
  show "\<forall>cb \<in> set (drawCmdBuffers u'). exclusively_written (shadow_resources u') (passes cb)"
    using shadow_recorded_all[where P="\<lambda>R cs. exclusively_written R (passes cs)" and s=u and s'=u']
      shadow_exclusive[OF r] a
    by blast
qed

theorem render_targets_written_at_most_once_witness:
  "bloom_set_up_by device_ok bloom_start bloom_set_up
   \<and> bloom bloom_set_up
   \<and> bloom_buildCommandBuffers device_ok bloom_set_up = Inr bloom_recorded
   \<and> exclusively_written (bloom_resources bloom_recorded)
        (passes (drawCmdBuffers bloom_recorded ! 0))
   \<and> bloom_set_up_by device_ok bloom_start (bloom_running\<lparr>bloom := False\<rparr>)
   \<and> bloom_buildCommandBuffers device_ok (bloom_running\<lparr>bloom := False\<rparr>) = Inr bloom_running_off
   \<and> written_at_most_once (bloom_resources bloom_running_off)
        (passes (drawCmdBuffers bloom_running_off ! 0))
   \<and> untouched (bloom_resources bloom_running_off)
        (passes (drawCmdBuffers bloom_running_off ! 0))
   \<and> shadow_set_up_by device_ok shadow_start shadow_set_up
   \<and> shadow_buildCommandBuffers device_ok shadow_set_up = Inr shadow_recorded
   \<and> exclusively_written (shadow_resources shadow_recorded)
        (passes (drawCmdBuffers shadow_recorded ! 0))"
proof -
  have off: "bloom_set_up_by device_ok bloom_start (bloom_running\<lparr>bloom := False\<rparr>)"
    by (rule bloom_set_up_by_cong[OF bloom_set_up_by_start(3)]) simp_all
  have f: "\<not> bloom (bloom_running\<lparr>bloom := False\<rparr>)" by simp
  from render_targets_written_at_most_once [of device_ok bloom_start bloom_set_up device_ok
      bloom_recorded shadow_start shadow_set_up shadow_recorded]
    bloom_set_up_by_start(1) bloom_set_up_build shadow_set_up_by_start(1) shadow_set_up_build
    recorded_nth_in_set bloom_running_on(2)
  have 1: "exclusively_written (bloom_resources bloom_recorded)
        (passes (drawCmdBuffers bloom_recorded ! 0))
     \<and> exclusively_written (shadow_resources shadow_recorded)
        (passes (drawCmdBuffers shadow_recorded ! 0))"
    by (simp split: if_splits)
  from render_targets_written_at_most_once [of device_ok bloom_start "bloom_running\<lparr>bloom := False\<rparr>"
      device_ok bloom_running_off shadow_start shadow_set_up shadow_recorded]
    off bloom_running_build_off running_nth_in_set f
  have 2: "written_at_most_once (bloom_resources bloom_running_off)
        (passes (drawCmdBuffers bloom_running_off ! 0))
     \<and> untouched (bloom_resources bloom_running_off)
        (passes (drawCmdBuffers bloom_running_off ! 0))"
    by (simp split: if_splits)
  from 1 2 off bloom_set_up_by_start(1) bloom_set_up_build shadow_set_up_by_start(1)
    shadow_set_up_build bloom_running_build_off bloom_running_on(2)
  show ?thesis by blast
qed

text \<open>
  The claim as worded asks for exactly one writing pass of each render target in any
  recorded frame. The frame that the overlay records when bloom is switched off has
  none: the render targets exist, and no pass of the frame writes them.
\<close>

theorem bloom_off_frame_leaves_targets_unwritten:
  "bloom_set_up_by device_ok bloom_start bloom_running
   \<and> bloom_OnUpdateUIOverlay device_ok bloom_off_overlay bloom_running = Inr bloom_running_off
   \<and> HandleAt ''offscreenPass.framebuffers'' 0 ''color.view''
        \<in> set (render_target_views (bloom_resources bloom_running_off))
   \<and> writers (bloom_resources bloom_running_off) (passes (drawCmdBuffers bloom_running_off ! 0))
        (HandleAt ''offscreenPass.framebuffers'' 0 ''color.view'') = []
   \<and> \<not> exclusively_written (bloom_resources bloom_running_off)
        (passes (drawCmdBuffers bloom_running_off ! 0))"
proof -
  have r: "bloom_ready VK_FORMAT_D32_SFLOAT_S8_UINT bloom_running_off"
    using bloom_set_up_by_ready[OF bloom_set_up_by_start(4)] by (simp add: device_ok_def)
  have v: "HandleAt ''offscreenPass.framebuffers'' 0 ''color.view''
        \<in> set (render_target_views (bloom_resources bloom_running_off))"
    by (simp add: bloom_ready_views[OF r])
  have u: "untouched (bloom_resources bloom_running_off)
       (passes (drawCmdBuffers bloom_running_off ! 0))"
    unfolding bloom_running_off_frame(1)
    by (rule bloom_off_untouched[OF r bloom_running_off_frame(2)])
  then have "\<And>p. p \<in> set (passes (drawCmdBuffers bloom_running_off ! 0))
         \<Longrightarrow> pass_writes (bloom_resources bloom_running_off) p = []"
    by (simp add: untouched_def list_all_iff)
  then have w: "writers (bloom_resources bloom_running_off)
        (passes (drawCmdBuffers bloom_running_off ! 0))
        (HandleAt ''offscreenPass.framebuffers'' 0 ''color.view'') = []"
    by (auto simp: writers_def filter_empty_conv)
  from untouched_not_exclusive[OF u v] v w bloom_set_up_by_start(3) bloom_running_toggle_off
  show ?thesis by blast
qed

section \<open>Synchronisation of the bloom frame\<close>

lemma bloom_made_readable:
  "made_readable (bloom_renderPassInfo fmt) 0 = Some VK_IMAGE_LAYOUT_SHADER_READ_ONLY_OPTIMAL"
  "made_readable (bloom_renderPassInfo fmt) (Suc 0) = None"
  by (simp_all add: made_readable_def bloom_renderPassInfo_def external_read_dependency_def
      covers_writes_def is_color_attachment_def)

lemma bloom_readable_after:
  assumes "bloom_ready fmt s"
  shows "readable_after (bloom_resources s) (Handle ''offscreenPass.renderPass'')
           (HandleAt ''offscreenPass.framebuffers'' 0 ''framebuffer'')
         = [(HandleAt ''offscreenPass.framebuffers'' 0 ''color.view'',
             VK_IMAGE_LAYOUT_SHADER_READ_ONLY_OPTIMAL)]"
    and "readable_after (bloom_resources s) (Handle ''offscreenPass.renderPass'')
           (HandleAt ''offscreenPass.framebuffers'' (Suc 0) ''framebuffer'')
         = [(HandleAt ''offscreenPass.framebuffers'' (Suc 0) ''color.view'',
             VK_IMAGE_LAYOUT_SHADER_READ_ONLY_OPTIMAL)]"
  by (simp_all add: readable_after_def bloom_ready_targets[OF assms] views_of_def
      bloom_made_readable enumerate_eq_zip)

lemma bloom_commands_ready:
  assumes "bloom_ready fmt s"
  shows "bloom_offscreen_commands s =
      [CmdSetViewport (sint FB_DIM) (sint FB_DIM) 0 1,
       CmdSetScissor (sint FB_DIM) (sint FB_DIM) 0 0,
       CmdBeginRenderPass (Handle ''offscreenPass.renderPass'')
         (HandleAt ''offscreenPass.framebuffers'' 0 ''framebuffer'')
         (uint FB_DIM) (uint FB_DIM) [ClearColor 0 0 0 1, ClearDepthStencil 1 0],
       CmdBindDescriptorSets (Handle ''pipelineLayouts.scene'') (Handle ''descriptorSets.scene''),
       CmdBindPipeline (Handle ''pipelines.glowPass''),
       CmdBindVertexBuffers 0 (Handle ''models.ufoGlow.vertices.buffer''),
       CmdBindIndexBuffer (Handle ''models.ufoGlow.indices.buffer''),
       CmdDrawIndexed (indexCount (models_ufoGlow s)) 1 0 0 0,
       CmdEndRenderPass,
       CmdBeginRenderPass (Handle ''offscreenPass.renderPass'')
         (HandleAt ''offscreenPass.framebuffers'' 1 ''framebuffer'')
         (uint FB_DIM) (uint FB_DIM) [ClearColor 0 0 0 1, ClearDepthStencil 1 0],
       CmdBindDescriptorSets (Handle ''pipelineLayouts.blur'') (Handle ''descriptorSets.blurVert''),
       CmdBindPipeline (Handle ''pipelines.blurVert''),
       CmdDraw 3 1 0 0,
       CmdEndRenderPass]"
  using assms
  by (simp add: bloom_offscreen_commands_def bloom_ready_def bloom_offscreenPass_of_def Let_def)

lemma bloom_sync:
  assumes "bloom_ready fmt s"
  shows "synchronized_by_render_passes (bloom_resources s) (bloom_commands s i)"
  unfolding synchronized_by_render_passes_def bloom_commands_def
    bloom_commands_ready[OF assms] bloom_scene_commands_def bloom_blurHorz_commands_def
  by (simp add: bloom_readable_after[OF assms]
      draw_ok_def bloom_ready_targets[OF assms] views_of_def render_target_views_def
      bloom_ready_sampled[OF assms])

lemma shadow_made_readable:
  "made_readable shadow_renderPassInfo 0 = Some VK_IMAGE_LAYOUT_DEPTH_STENCIL_READ_ONLY_OPTIMAL"
  by (simp add: made_readable_def shadow_renderPassInfo_def external_read_dependency_def
      covers_writes_def is_color_attachment_def)

lemma shadow_readable_after:
  assumes "shadow_ready s"
  shows "readable_after (shadow_resources s) (Handle ''offscreenPass.renderPass'')
           (Handle ''offscreenPass.frameBuffer'')
         = [(Handle ''offscreenPass.depth.view'',
             VK_IMAGE_LAYOUT_DEPTH_STENCIL_READ_ONLY_OPTIMAL)]"
  by (simp add: readable_after_def shadow_ready_resources[OF assms] views_of_def
      shadow_made_readable enumerate_eq_zip)

lemma shadow_sync:
  assumes "shadow_ready s" and "shadow_commands s i = Inr cs"
  shows "synchronized_by_render_passes (shadow_resources s) cs"
proof -
  from assms(2) have cs: "cs = shadow_offscreen_commands s (nat (sint (sceneIndex s)))
              @ [CmdBeginRenderPass (Handle ''renderPass'') (HandleAt ''frameBuffers'' i [])
                   (uint (width s)) (uint (height s))
                   [defaultClearColor s, ClearDepthStencil 1 0],
                 CmdSetViewport (uint (width s)) (uint (height s)) 0 1,
                 CmdSetScissor (uint (width s)) (uint (height s)) 0 0]
              @ (if displayShadowMap s then shadow_quad_commands s else [])
              @ shadow_scene_commands s (nat (sint (sceneIndex s)))
              @ [DrawUI, CmdEndRenderPass]"
    by (simp add: shadow_commands_def Let_def split: if_splits)
  show ?thesis
    unfolding synchronized_by_render_passes_def cs shadow_offscreen_commands_def
      shadow_quad_commands_def shadow_scene_commands_def Let_def
    by (simp add: shadow_readable_after[OF assms(1)] shadow_ready_resources[OF assms(1)]
        draw_ok_def views_of_def render_target_views_def shadow_ready_sampled[OF assms(1)])
qed

lemma bloom_on_frame:
  assumes "bloom_ready fmt s" and "bloom s"
  shows "length (passes (bloom_commands s i)) = 3"
    and "pass_writes (bloom_resources s) (passes (bloom_commands s i) ! 0)
           = [HandleAt ''offscreenPass.framebuffers'' 0 ''color.view'',
              HandleAt ''offscreenPass.framebuffers'' 0 ''depth.view'']"
    and "pass_reads (bloom_resources s) (passes (bloom_commands s i) ! 0) = []"
    and "pass_writes (bloom_resources s) (passes (bloom_commands s i) ! 1)
           = [HandleAt ''offscreenPass.framebuffers'' 1 ''color.view'',
              HandleAt ''offscreenPass.framebuffers'' 1 ''depth.view'']"
    and "pass_reads (bloom_resources s) (passes (bloom_commands s i) ! 1)
           = [HandleAt ''offscreenPass.framebuffers'' 0 ''color.view'']"
    and "pass_writes (bloom_resources s) (passes (bloom_commands s i) ! 2) = []"
    and "pass_reads (bloom_resources s) (passes (bloom_commands s i) ! 2)
           = [HandleAt ''offscreenPass.framebuffers'' 1 ''color.view'']"
  unfolding bloom_passes_on[OF assms(2)]
  by (simp_all add: pass_reads_def pass_writes_def views_of_def render_target_views_def
      bloom_ready_targets[OF assms(1)] bloom_ready_offscreen[OF assms(1)]
      bloom_ready_sampled[OF assms(1)])

lemma bloom_on_split:
  assumes "bloom_ready fmt s" and "bloom s"
  shows "\<exists>glow blur scene.
       bloom_commands s i = glow @ [CmdEndRenderPass] @ blur @ [CmdEndRenderPass] @ scene
     \<and> draw_steps None None glow
         = [(HandleAt ''offscreenPass.framebuffers'' 0 ''framebuffer'',
             Handle ''descriptorSets.scene'')]
     \<and> draw_steps None None blur
         = [(HandleAt ''offscreenPass.framebuffers'' 1 ''framebuffer'',
             Handle ''descriptorSets.blurVert'')]
     \<and> draw_steps None None scene
         = [(HandleAt ''frameBuffers'' i [], Handle ''descriptorSets.skyBox''),
            (HandleAt ''frameBuffers'' i [], Handle ''descriptorSets.scene''),
            (HandleAt ''frameBuffers'' i [], Handle ''descriptorSets.blurHorz'')]"
  apply (rule exI[of _ "take 8 (bloom_offscreen_commands s)"])
  apply (rule exI[of _ "take 4 (drop 9 (bloom_offscreen_commands s))"])
  apply (rule exI[of _ "bloom_scene_commands s i @ bloom_blurHorz_commands
                          @ [DrawUI, CmdEndRenderPass]"])
  unfolding bloom_commands_def bloom_commands_ready[OF assms(1)]
  apply (simp add: assms(2) bloom_scene_commands_def bloom_blurHorz_commands_def)
  done

lemma bloom_on_readable:
  assumes "bloom_ready fmt s" and "bloom s"
  shows "readable_after (bloom_resources s) (p_renderPass (passes (bloom_commands s i) ! 0))
           (p_framebuffer (passes (bloom_commands s i) ! 0))
         = [(HandleAt ''offscreenPass.framebuffers'' 0 ''color.view'',
             VK_IMAGE_LAYOUT_SHADER_READ_ONLY_OPTIMAL)]"
    and "readable_after (bloom_resources s) (p_renderPass (passes (bloom_commands s i) ! 1))
           (p_framebuffer (passes (bloom_commands s i) ! 1))
         = [(HandleAt ''offscreenPass.framebuffers'' 1 ''color.view'',
             VK_IMAGE_LAYOUT_SHADER_READ_ONLY_OPTIMAL)]"
  unfolding bloom_passes_on[OF assms(2)]
  using bloom_readable_after[OF assms(1)]
  by (simp_all add: bloom_ready_offscreen[OF assms(1)])

text \<open>
  Claim C2. Let the bloom example be set up by \<open>prepareOffscreen\<close> and
  \<open>setupDescriptorSet\<close>, and let \<open>buildCommandBuffers\<close> record with \<open>bloom\<close> set. Every
  command buffer then holds three passes. The first writes the colour view \<open>T1\<close> of
  framebuffer 0 and reads no render target, the second writes the colour view \<open>T2\<close> of
  framebuffer 1 and samples \<open>T1\<close>, the third samples \<open>T2\<close>. The render pass that
  \<open>prepareOffscreen\<close> created leaves \<open>T1\<close> and \<open>T2\<close> in \<open>SHADER_READ_ONLY_OPTIMAL\<close>, through
  its final layout and its dependency to \<open>VK_SUBPASS_EXTERNAL\<close>, when the first and the
  second pass end. The commands are in this order: the draw of the first pass, the end
  of the first pass, the draw of the second pass, the end of the second pass, the
  draws of the third pass. So every draw finds each render target it samples readable
  in the layout its descriptor declares, and the command buffer holds no explicit
  barrier.
\<close>

theorem bloom_frame_synchronized_by_render_passes:
  fixes s0 s s' :: "'a bloom_state"
  shows "bloom_set_up_by d0 s0 s \<and> bloom s \<and> bloom_buildCommandBuffers d s = Inr s'
         \<and> i < length (drawCmdBuffers s') \<longrightarrow>
      length (passes (drawCmdBuffers s' ! i)) = 3
    \<and> HandleAt ''offscreenPass.framebuffers'' 0 ''color.view''
         \<in> set (pass_writes (bloom_resources s') (passes (drawCmdBuffers s' ! i) ! 0))
    \<and> pass_reads (bloom_resources s') (passes (drawCmdBuffers s' ! i) ! 0) = []
    \<and> HandleAt ''offscreenPass.framebuffers'' 1 ''color.view''
         \<in> set (pass_writes (bloom_resources s') (passes (drawCmdBuffers s' ! i) ! 1))
    \<and> pass_reads (bloom_resources s') (passes (drawCmdBuffers s' ! i) ! 1)
         = [HandleAt ''offscreenPass.framebuffers'' 0 ''color.view'']
    \<and> pass_reads (bloom_resources s') (passes (drawCmdBuffers s' ! i) ! 2)
         = [HandleAt ''offscreenPass.framebuffers'' 1 ''color.view'']
    \<and> readable_after (bloom_resources s')
          (p_renderPass (passes (drawCmdBuffers s' ! i) ! 0))
          (p_framebuffer (passes (drawCmdBuffers s' ! i) ! 0))
        = [(HandleAt ''offscreenPass.framebuffers'' 0 ''color.view'',
            VK_IMAGE_LAYOUT_SHADER_READ_ONLY_OPTIMAL)]
    \<and> readable_after (bloom_resources s')
          (p_renderPass (passes (drawCmdBuffers s' ! i) ! 1))
          (p_framebuffer (passes (drawCmdBuffers s' ! i) ! 1))
        = [(HandleAt ''offscreenPass.framebuffers'' 1 ''color.view'',
            VK_IMAGE_LAYOUT_SHADER_READ_ONLY_OPTIMAL)]
    \<and> (\<exists>glow blur scene.
          drawCmdBuffers s' ! i
            = glow @ [CmdEndRenderPass] @ blur @ [CmdEndRenderPass] @ scene
        \<and> draw_steps None None glow
            = [(HandleAt ''offscreenPass.framebuffers'' 0 ''framebuffer'',
                Handle ''descriptorSets.scene'')]
        \<and> draw_steps None None blur
            = [(HandleAt ''offscreenPass.framebuffers'' 1 ''framebuffer'',
                Handle ''descriptorSets.blurVert'')]
        \<and> draw_steps None None scene
            = [(HandleAt ''frameBuffers'' i [], Handle ''descriptorSets.skyBox''),
               (HandleAt ''frameBuffers'' i [], Handle ''descriptorSets.scene''),
               (HandleAt ''frameBuffers'' i [], Handle ''descriptorSets.blurHorz'')])
    \<and> synchronized_by_render_passes (bloom_resources s') (drawCmdBuffers s' ! i)"
proof
  assume a: "bloom_set_up_by d0 s0 s \<and> bloom s \<and> bloom_buildCommandBuffers d s = Inr s'
         \<and> i < length (drawCmdBuffers s')"
  then obtain fmt where r: "bloom_ready fmt s"
    using bloom_set_up_by_ready by blast
  from a have on: "bloom s" by simp
  from a have s': "s' = s\<lparr>drawCmdBuffers := map (bloom_commands s) [0..<length (drawCmdBuffers s)]\<rparr>"
    by (auto dest: bloom_build_Inr)
  have R: "bloom_resources s' = bloom_resources s"
    by (subst s') simp
  have "length (drawCmdBuffers s') = length (drawCmdBuffers s)"
    by (subst s') simp
  with a have "i < length (drawCmdBuffers s)" by simp
  then have cb: "drawCmdBuffers s' ! i = bloom_commands s i"
    by (subst s') simp
  show "length (passes (drawCmdBuffers s' ! i)) = 3
    \<and> HandleAt ''offscreenPass.framebuffers'' 0 ''color.view''
         \<in> set (pass_writes (bloom_resources s') (passes (drawCmdBuffers s' ! i) ! 0))
    \<and> pass_reads (bloom_resources s') (passes (drawCmdBuffers s' ! i) ! 0) = []
    \<and> HandleAt ''offscreenPass.framebuffers'' 1 ''color.view''
         \<in> set (pass_writes (bloom_resources s') (passes (drawCmdBuffers s' ! i) ! 1))
    \<and> pass_reads (bloom_resources s') (passes (drawCmdBuffers s' ! i) ! 1)
         = [HandleAt ''offscreenPass.framebuffers'' 0 ''color.view'']
    \<and> pass_reads (bloom_resources s') (passes (drawCmdBuffers s' ! i) ! 2)
         = [HandleAt ''offscreenPass.framebuffers'' 1 ''color.view'']
    \<and> readable_after (bloom_resources s')
          (p_renderPass (passes (drawCmdBuffers s' ! i) ! 0))
          (p_framebuffer (passes (drawCmdBuffers s' ! i) ! 0))
        = [(HandleAt ''offscreenPass.framebuffers'' 0 ''color.view'',
            VK_IMAGE_LAYOUT_SHADER_READ_ONLY_OPTIMAL)]
    \<and> readable_after (bloom_resources s')
          (p_renderPass (passes (drawCmdBuffers s' ! i) ! 1))
          (p_framebuffer (passes (drawCmdBuffers s' ! i) ! 1))
        = [(HandleAt ''offscreenPass.framebuffers'' 1 ''color.view'',
            VK_IMAGE_LAYOUT_SHADER_READ_ONLY_OPTIMAL)]
    \<and> (\<exists>glow blur scene.
          drawCmdBuffers s' ! i
            = glow @ [CmdEndRenderPass] @ blur @ [CmdEndRenderPass] @ scene
        \<and> draw_steps None None glow
            = [(HandleAt ''offscreenPass.framebuffers'' 0 ''framebuffer'',
                Handle ''descriptorSets.scene'')]
        \<and> draw_steps None None blur
            = [(HandleAt ''offscreenPass.framebuffers'' 1 ''framebuffer'',
                Handle ''descriptorSets.blurVert'')]
        \<and> draw_steps None None scene
            = [(HandleAt ''frameBuffers'' i [], Handle ''descriptorSets.skyBox''),
               (HandleAt ''frameBuffers'' i [], Handle ''descriptorSets.scene''),
               (HandleAt ''frameBuffers'' i [], Handle ''descriptorSets.blurHorz'')])
    \<and> synchronized_by_render_passes (bloom_resources s') (drawCmdBuffers s' ! i)"
    unfolding R cb
    using bloom_on_frame[OF r on, of i] bloom_on_readable[OF r on, of i]
      bloom_on_split[OF r on, of i] bloom_sync[OF r, of i]
    by simp
qed

theorem bloom_frame_synchronized_by_render_passes_witness:
  "bloom_set_up_by device_ok bloom_start bloom_set_up
   \<and> bloom bloom_set_up
   \<and> bloom_buildCommandBuffers device_ok bloom_set_up = Inr bloom_recorded
   \<and> 0 < length (drawCmdBuffers bloom_recorded)
   \<and> length (passes (drawCmdBuffers bloom_recorded ! 0)) = 3
   \<and> pass_reads (bloom_resources bloom_recorded) (passes (drawCmdBuffers bloom_recorded ! 0) ! 1)
        = [HandleAt ''offscreenPass.framebuffers'' 0 ''color.view'']
   \<and> pass_reads (bloom_resources bloom_recorded) (passes (drawCmdBuffers bloom_recorded ! 0) ! 2)
        = [HandleAt ''offscreenPass.framebuffers'' 1 ''color.view'']
   \<and> synchronized_by_render_passes (bloom_resources bloom_recorded)
        (drawCmdBuffers bloom_recorded ! 0)"
proof -
  have len: "0 < length (drawCmdBuffers bloom_recorded)"
    by (simp add: bloom_recorded_def)
  from bloom_frame_synchronized_by_render_passes [of device_ok bloom_start bloom_set_up
      device_ok bloom_recorded 0]
    bloom_set_up_by_start(1) bloom_running_on(2) bloom_set_up_build len
  show ?thesis by blast
qed

text \<open>
  The check is not satisfied by every command list: it fails when the scene pass, with
  its blur draw, is recorded before the offscreen passes, and a render pass without
  the dependency to \<open>VK_SUBPASS_EXTERNAL\<close> makes nothing readable.
\<close>

lemma sync_rejects_read_before_write:
  "\<not> synchronized_by_render_passes (bloom_resources bloom_set_up)
       (bloom_scene_commands bloom_set_up 0 @ bloom_blurHorz_commands
        @ [DrawUI, CmdEndRenderPass] @ bloom_offscreen_commands bloom_set_up)"
  unfolding synchronized_by_render_passes_def 
    bloom_commands_ready[OF bloom_set_up_ready] bloom_scene_commands_def bloom_blurHorz_commands_def
  by (simp add: bloom_readable_after[OF bloom_set_up_ready]
      draw_ok_def bloom_ready_targets[OF bloom_set_up_ready] views_of_def render_target_views_def
      bloom_ready_sampled[OF bloom_set_up_ready])

lemma no_dependency_not_readable:
  "made_readable ((bloom_renderPassInfo fmt)\<lparr>dependencies := []\<rparr>) 0 = None"
  by (simp add: made_readable_def bloom_renderPassInfo_def)

end
